theory Spec2Isabelle
  imports Main
begin

section \<open>JavaScript values\<close>

text \<open>
  The client is TypeScript; what travels over the network and what is typed \<open>any\<close> is a
  JavaScript value. The model keeps the JSON shapes plus \<open>undefined\<close>. Numbers are
  integers (every number the modelled code reads is an identifier or a count).
\<close>

datatype jsval =
    JUndefined
  | JNull
  | JBool bool
  | JNum int
  | JStr string
  | JArr "jsval list"
  | JObj "(string \<times> jsval) list"

text \<open>Truthiness, as \<open>!v\<close>, \<open>v && ...\<close> and \<open>v || ...\<close> test it.\<close>

fun truthy :: "jsval \<Rightarrow> bool" where
  "truthy JUndefined = False"
| "truthy JNull = False"
| "truthy (JBool b) = b"
| "truthy (JNum n) = (n \<noteq> 0)"
| "truthy (JStr s) = (s \<noteq> [])"
| "truthy (JArr xs) = True"
| "truthy (JObj kvs) = True"

text \<open>\<open>a || b\<close> on values.\<close>

definition orElse :: "jsval \<Rightarrow> jsval \<Rightarrow> jsval" where
  "orElse a b = (if truthy a then a else b)"

text \<open>Decimal rendering of a number inside a template literal.\<close>

definition digit :: "nat \<Rightarrow> char" where
  "digit n = ''0123456789'' ! (n mod 10)"

function showNat :: "nat \<Rightarrow> string" where
  "showNat n = (if n < 10 then [digit n] else showNat (n div 10) @ [digit n])"
  by pat_completeness auto
termination
  by (relation "measure (\<lambda>n. n)") auto

declare showNat.simps [simp del]

definition showInt :: "int \<Rightarrow> string" where
  "showInt i = (if i < 0 then CHR ''-'' # showNat (nat (- i)) else showNat (nat i))"

fun joinComma :: "string list \<Rightarrow> string" where
  "joinComma [] = []"
| "joinComma [s] = s"
| "joinComma (s # t # ss) = s @ '','' @ joinComma (t # ss)"

text \<open>
  \<open>String(v)\<close>: what a template literal \<open>`${v}`\<close> and \<open>localStorage.setItem(k, v)\<close>
  make of a value.
\<close>

fun toStr :: "jsval \<Rightarrow> string" where
  "toStr JUndefined = ''undefined''"
| "toStr JNull = ''null''"
| "toStr (JBool b) = (if b then ''true'' else ''false'')"
| "toStr (JNum n) = showInt n"
| "toStr (JStr s) = s"
| "toStr (JArr xs) =
     joinComma (map (\<lambda>x. if x = JUndefined \<or> x = JNull then [] else toStr x) xs)"
| "toStr (JObj kvs) = ''[object Object]''"

text \<open>
  Property access \<open>v.k\<close> and destructuring \<open>const { k } = v\<close> throw a TypeError when
  \<open>v\<close> is \<open>undefined\<close> or \<open>null\<close>: every such access in the model is guarded by
  \<open>nullish\<close>, with the throw as its branch. Otherwise the access is \<open>field\<close>: on an
  object the value stored under the key or \<open>undefined\<close>, and \<open>undefined\<close> on a
  string, number, boolean or array, none of which has a built-in property among the keys
  the client reads (\<open>access_token\<close>, \<open>refresh_token\<close>, \<open>syllabus_id\<close>,
  \<open>parsed_data\<close>, \<open>syllabi\<close>, \<open>detail\<close>, \<open>id\<close>, \<open>title\<close>, \<open>status\<close>).
\<close>

definition field :: "jsval \<Rightarrow> string \<Rightarrow> jsval" where
  "field v k =
     (case v of
        JObj kvs \<Rightarrow> (case map_of kvs k of Some x \<Rightarrow> x | None \<Rightarrow> JUndefined)
      | _ \<Rightarrow> JUndefined)"

definition nullish :: "jsval \<Rightarrow> bool" where
  "nullish v = (v = JUndefined \<or> v = JNull)"

text \<open>Optional chaining \<open>v?.k\<close> never throws.\<close>

definition optField :: "jsval \<Rightarrow> string \<Rightarrow> jsval" where
  "optField v k = (if nullish v then JUndefined else field v k)"

text \<open>
  Object spread \<open>{...a, ...b}\<close> on the entries of two objects: the keys of \<open>a\<close> keep
  their position, a key of \<open>b\<close> overrides or is appended.
\<close>

fun upsert :: "string \<Rightarrow> jsval \<Rightarrow> (string \<times> jsval) list \<Rightarrow> (string \<times> jsval) list" where
  "upsert k v [] = [(k, v)]"
| "upsert k v ((k', v') # kvs) =
     (if k' = k then (k, v) # kvs else (k', v') # upsert k v kvs)"

definition spread :: "(string \<times> jsval) list \<Rightarrow> (string \<times> jsval) list \<Rightarrow> (string \<times> jsval) list" where
  "spread a b = foldl (\<lambda>acc (k, v). upsert k v acc) a b"

section \<open>The browser and the network\<close>

text \<open>
  A request as the HTTP adapter sends it, and an axios request config: the request plus
  the \<open>_retry\<close> flag the response interceptor adds (absent reads as false). The field
  \<open>headers\<close> is always an object on an \<open>InternalAxiosRequestConfig\<close>.
\<close>

record request =
  http_method :: string
  url :: string
  headers :: "string \<rightharpoonup> string"
  data :: jsval

record config = request +
  retry :: bool

type_synonym response = "nat \<times> jsval"

datatype reply = Reply nat jsval | NoReply

datatype error = TypeError | AxiosError config "response option"

datatype 'a promise = Resolved 'a | Rejected error

text \<open>
  The remote API is an oracle: its reply to a request may depend on every request sent
  before. \<open>NoReply\<close> is a network failure (an axios error without \<open>response\<close>).
\<close>

type_synonym server = "request list \<Rightarrow> request \<Rightarrow> reply"

record world =
  localStorage :: "string \<rightharpoonup> string"
  location_href :: string
  sent :: "request list"
  router :: "string list"
  console :: "string list"
  NEXT_PUBLIC_API_URL :: "string option"

definition getItem :: "world \<Rightarrow> string \<Rightarrow> string option" where
  "getItem w k = localStorage w k"

definition setItem :: "world \<Rightarrow> string \<Rightarrow> jsval \<Rightarrow> world" where
  "setItem w k v = w\<lparr>localStorage := (localStorage w)(k \<mapsto> toStr v)\<rparr>"

definition removeItem :: "world \<Rightarrow> string \<Rightarrow> world" where
  "removeItem w k = w\<lparr>localStorage := (localStorage w)(k := None)\<rparr>"

text \<open>Truthiness of what \<open>getItem\<close> returns (\<open>string | null\<close>).\<close>

definition present :: "string option \<Rightarrow> bool" where
  "present t = (case t of None \<Rightarrow> False | Some s \<Rightarrow> s \<noteq> [])"

definition API_BASE_URL :: "world \<Rightarrow> string" where
  "API_BASE_URL w =
     (case NEXT_PUBLIC_API_URL w of
        Some u \<Rightarrow> if u \<noteq> [] then u else ''http://localhost:8000''
      | None \<Rightarrow> ''http://localhost:8000'')"

text \<open>Sending a request appends it to the log and asks the server.\<close>

definition dispatch :: "server \<Rightarrow> world \<Rightarrow> request \<Rightarrow> reply \<times> world" where
  "dispatch srv w r = (srv (sent w) r, w\<lparr>sent := sent w @ [r]\<rparr>)"

text \<open>
  The axios library resolves a reply whose status is in \<open>[200, 300)\<close> and rejects every
  other one, and a network failure, with an error that carries the request config.
\<close>

definition settle :: "config \<Rightarrow> reply \<Rightarrow> response promise" where
  "settle c rep =
     (case rep of
        Reply st d \<Rightarrow>
          if 200 \<le> st \<and> st < 300 then Resolved (st, d)
          else Rejected (AxiosError c (Some (st, d)))
      | NoReply \<Rightarrow> Rejected (AxiosError c None))"

text \<open>The request as sent for a config of the instance: \<open>baseURL\<close> is prefixed.\<close>

definition wire :: "world \<Rightarrow> config \<Rightarrow> request" where
  "wire w c =
     \<lparr>http_method = http_method c, url = API_BASE_URL w @ url c,
      headers = headers c, data = data c\<rparr>"

text \<open>\<open>axios.post(url, data)\<close> on the bare library: no instance, no interceptor.\<close>

definition axios_post :: "server \<Rightarrow> world \<Rightarrow> string \<Rightarrow> jsval \<Rightarrow> response promise \<times> world" where
  "axios_post srv w u d =
     (let c = \<lparr>http_method = ''post'', url = u, headers = Map.empty, data = d, retry = False\<rparr>;
          (rep, w1) = dispatch srv w
            \<lparr>http_method = ''post'', url = u, headers = Map.empty, data = d\<rparr>
      in (settle c rep, w1))"

section \<open>The API client (lib/api.ts)\<close>

text \<open>The config \<open>api.get\<close>, \<open>api.post\<close> and \<open>api.put\<close> build: the instance's default
  header, then the headers of the call.\<close>

definition instanceConfig :: "string \<Rightarrow> string \<Rightarrow> jsval \<Rightarrow> (string \<rightharpoonup> string) \<Rightarrow> config" where
  "instanceConfig m u d hs =
     \<lparr>http_method = m, url = u,
      headers = [''Content-Type'' \<mapsto> ''application/json''] ++ hs,
      data = d, retry = False\<rparr>"

text \<open>Request interceptor.\<close>

definition requestInterceptor :: "world \<Rightarrow> config \<Rightarrow> config" where
  "requestInterceptor w c =
     (case getItem w ''access_token'' of
        None \<Rightarrow> c
      | Some token \<Rightarrow>
          if token \<noteq> [] then
            c\<lparr>headers := (headers c)(''Authorization'' \<mapsto> ''Bearer '' @ token)\<rparr>
          else c)"

text \<open>
  Response interceptor, rejected branch. \<open>return api(originalRequest)\<close> hands the config
  back to the instance (\<open>Reissue\<close>); since it is returned without \<open>await\<close>, a rejection
  of the reissued request is not caught by the \<open>catch\<close> of the refresh. The config of
  the error is the object the flag is set on, so the rejected error carries the flag.
\<close>

datatype outcome = Settled "response promise" | Reissue config

definition catchRefreshError :: "world \<Rightarrow> world" where
  "catchRefreshError w =
     (removeItem (removeItem w ''access_token'') ''refresh_token'')\<lparr>location_href := ''/login''\<rparr>"

definition responseRejected :: "server \<Rightarrow> world \<Rightarrow> error \<Rightarrow> outcome \<times> world" where
  "responseRejected srv w err =
     (case err of
        TypeError \<Rightarrow> (Settled (Rejected err), w)
      | AxiosError originalRequest resp \<Rightarrow>
          if map_option fst resp = Some 401 \<and> \<not> retry originalRequest then
            (let originalRequest = originalRequest\<lparr>retry := True\<rparr> in
             case getItem w ''refresh_token'' of
               None \<Rightarrow> (Settled (Rejected (AxiosError originalRequest resp)), w)
             | Some refreshToken \<Rightarrow>
                 if refreshToken = [] then
                   (Settled (Rejected (AxiosError originalRequest resp)), w)
                 else
                   (case axios_post srv w (API_BASE_URL w @ ''/auth/refresh'')
                           (JObj [(''refresh_token'', JStr refreshToken)]) of
                      (Rejected refreshError, w1) \<Rightarrow>
                        (Settled (Rejected refreshError), catchRefreshError w1)
                    | (Resolved response, w1) \<Rightarrow>
                        if nullish (snd response) then
                          (Settled (Rejected TypeError), catchRefreshError w1)
                        else
                          (let access_token = field (snd response) ''access_token'';
                               w2 = setItem w1 ''access_token'' access_token
                           in (Reissue (originalRequest\<lparr>headers :=
                                 (headers originalRequest)
                                   (''Authorization'' \<mapsto> ''Bearer '' @ toStr access_token)\<rparr>),
                               w2))))
          else (Settled (Rejected err), w))"

text \<open>
  The instance: request interceptor, dispatch, then the response interceptor (which
  passes a fulfilled response through). The reissued config has \<open>_retry\<close> set, which is
  what ends the recursion.
\<close>

function api :: "server \<Rightarrow> world \<Rightarrow> config \<Rightarrow> response promise \<times> world" where
  "api srv w c =
     (let c1 = requestInterceptor w c;
          (rep, w1) = dispatch srv w (wire w c1)
      in case settle c1 rep of
           Resolved r \<Rightarrow> (Resolved r, w1)
         | Rejected e \<Rightarrow>
             (case responseRejected srv w1 e of
                (Settled p, w2) \<Rightarrow> (p, w2)
              | (Reissue c2, w2) \<Rightarrow> api srv w2 c2))"
  by pat_completeness auto
termination
proof (relation "measure (\<lambda>(srv, w, c). if retry c then 0 else 1)")
  show "wf (measure (\<lambda>(srv, w, c). if retry c then 0 else (1::nat)))"
    by simp
qed (auto simp add: settle_def responseRejected_def requestInterceptor_def Let_def
    split: reply.splits if_splits option.splits prod.splits promise.splits)

declare api.simps [simp del]

text \<open>\<open>response.data\<close> of a settled call.\<close>

definition dataOf :: "response promise \<times> world \<Rightarrow> jsval promise \<times> world" where
  "dataOf pw =
     (case pw of
        (Resolved response, w) \<Rightarrow> (Resolved (snd response), w)
      | (Rejected e, w) \<Rightarrow> (Rejected e, w))"

subsection \<open>authAPI\<close>

definition authAPI_login :: "server \<Rightarrow> world \<Rightarrow> string \<Rightarrow> string \<Rightarrow> jsval promise \<times> world" where
  "authAPI_login srv w mail password =
     (case api srv w (instanceConfig ''post'' ''/auth/login''
             (JObj [(''email'', JStr mail), (''password'', JStr password)]) Map.empty) of
        (Rejected e, w1) \<Rightarrow> (Rejected e, w1)
      | (Resolved response, w1) \<Rightarrow>
          if nullish (snd response) then (Rejected TypeError, w1)
          else
            (let access_token = field (snd response) ''access_token'';
                 refresh_token = field (snd response) ''refresh_token''
             in (Resolved (snd response),
                 setItem (setItem w1 ''access_token'' access_token)
                   ''refresh_token'' refresh_token)))"

definition authAPI_logout :: "world \<Rightarrow> world" where
  "authAPI_logout w = removeItem (removeItem w ''access_token'') ''refresh_token''"

subsection \<open>syllabusAPI and plansAPI\<close>

text \<open>A \<open>File\<close>; the form data of an upload is modelled by the file's name.\<close>

record jsfile =
  file_name :: string
  file_size :: nat

definition syllabusAPI_upload :: "server \<Rightarrow> world \<Rightarrow> jsfile \<Rightarrow> jsval promise \<times> world" where
  "syllabusAPI_upload srv w f =
     dataOf (api srv w (instanceConfig ''post'' ''/syllabus/upload''
       (JObj [(''file'', JStr (file_name f))])
       [''Content-Type'' \<mapsto> ''multipart/form-data'']))"

definition syllabusAPI_getAll :: "server \<Rightarrow> world \<Rightarrow> jsval promise \<times> world" where
  "syllabusAPI_getAll srv w =
     dataOf (api srv w (instanceConfig ''get'' ''/syllabus/'' JUndefined Map.empty))"

definition plansAPI_generate ::
  "server \<Rightarrow> world \<Rightarrow> jsval \<Rightarrow> (string \<times> jsval) list \<Rightarrow> jsval promise \<times> world" where
  "plansAPI_generate srv w syllabus prefs =
     dataOf (api srv w (instanceConfig ''post'' ''/plans/generate''
       (JObj (spread [(''syllabus_id'', syllabus)] prefs)) Map.empty))"

definition plansAPI_getProgress :: "server \<Rightarrow> world \<Rightarrow> int \<Rightarrow> jsval promise \<times> world" where
  "plansAPI_getProgress srv w n =
     dataOf (api srv w (instanceConfig ''get''
       (''/plans/'' @ showInt n @ ''/progress'') JUndefined Map.empty))"

definition plansAPI_updateTask ::
  "server \<Rightarrow> world \<Rightarrow> int \<Rightarrow> string \<Rightarrow> (string \<times> jsval) list \<Rightarrow> jsval promise \<times> world" where
  "plansAPI_updateTask srv w planId taskId d =
     dataOf (api srv w (instanceConfig ''put''
       (''/plans/'' @ showInt planId @ ''/tasks/'' @ taskId) (JObj d) Map.empty))"

section \<open>Authentication utilities (frontend/lib/auth.ts)\<close>

text \<open>The flag says whether \<open>window\<close> is defined (false when rendering on the server).\<close>

definition getAuthToken :: "bool \<Rightarrow> world \<Rightarrow> string option" where
  "getAuthToken hasWindow w = (if \<not> hasWindow then None else getItem w ''auth_token'')"

definition setAuthToken :: "bool \<Rightarrow> world \<Rightarrow> string \<Rightarrow> world" where
  "setAuthToken hasWindow w token =
     (if \<not> hasWindow then w else setItem w ''auth_token'' (JStr token))"

section \<open>The state stores (lib/store.ts)\<close>

text \<open>
  The stores are zustand stores. The auth store is wrapped in \<open>persist\<close>, which mirrors
  it into local storage under a key of its own (\<open>auth-storage\<close>); that mirror holds no
  token and is left out of the model.
\<close>

subsection \<open>Auth store\<close>

record user =
  user_id :: int
  user_email :: string
  full_name :: string
  created_at :: string

record authState =
  user :: "user option"
  isAuthenticated :: bool
  isLoading :: bool

definition initialAuth :: authState where
  "initialAuth = \<lparr>user = None, isAuthenticated = False, isLoading = False\<rparr>"

text \<open>\<open>!!user\<close> on \<open>User | null\<close>: an object is truthy.\<close>

definition setUser :: "user option \<Rightarrow> authState \<Rightarrow> authState" where
  "setUser u st = st\<lparr>user := u, isAuthenticated := (u \<noteq> None)\<rparr>"

definition logout :: "authState \<times> world \<Rightarrow> authState \<times> world" where
  "logout sw =
     (case sw of (st, w) \<Rightarrow>
        (st\<lparr>user := None, isAuthenticated := False\<rparr>,
         removeItem (removeItem w ''access_token'') ''refresh_token''))"

subsection \<open>Plan store\<close>

text \<open>
  The types of lib/types.ts. A task is kept as the entries of its object, since
  \<open>updateTask\<close> merges an untyped \<open>updates\<close> object into it.
\<close>

type_synonym task = "(string \<times> jsval) list"

record week =
  week_number :: int
  start_date :: string
  end_date :: string
  tasks :: "task list"
  week_notes :: "string option"

record studyPlan =
  sp_title :: string
  sp_description :: "string option"
  weeks :: "week list"
  total_study_hours :: "int option"
  preferences :: jsval
  metadata :: jsval

record plan =
  plan_id :: int
  title :: string
  description :: "string option"
  status :: string
  plan_data :: studyPlan
  plan_created_at :: string
  updated_at :: "string option"
  version_number :: int

text \<open>
  The store never looks inside a syllabus, and inside a plan only in \<open>updateTask\<close>, so
  both are type parameters: the dashboard holds typed plans, the upload page stores what
  the API returned.
\<close>

record ('p, 's) planState =
  currentPlan :: "'p option"
  plans :: "'p list"
  syllabi :: 's

text \<open>
  What an action hands to zustand's \<open>set\<close>: an object with some of the fields. \<open>set\<close>
  merges it shallowly into the state.
\<close>

record ('p, 's) planPatch =
  new_currentPlan :: "'p option option"
  new_plans :: "'p list option"
  new_syllabi :: "'s option"

definition noPatch :: "('p, 's) planPatch" where
  "noPatch = \<lparr>new_currentPlan = None, new_plans = None, new_syllabi = None\<rparr>"

definition wholeState :: "('p, 's) planState \<Rightarrow> ('p, 's) planPatch" where
  "wholeState st =
     \<lparr>new_currentPlan = Some (currentPlan st), new_plans = Some (plans st),
      new_syllabi = Some (syllabi st)\<rparr>"

definition zset :: "('p, 's) planState \<Rightarrow> ('p, 's) planPatch \<Rightarrow> ('p, 's) planState" where
  "zset st p =
     \<lparr>currentPlan = (case new_currentPlan p of None \<Rightarrow> currentPlan st | Some v \<Rightarrow> v),
      plans = (case new_plans p of None \<Rightarrow> plans st | Some v \<Rightarrow> v),
      syllabi = (case new_syllabi p of None \<Rightarrow> syllabi st | Some v \<Rightarrow> v)\<rparr>"

definition setCurrentPlan :: "'p option \<Rightarrow> ('p, 's) planState \<Rightarrow> ('p, 's) planState" where
  "setCurrentPlan p st = zset st (noPatch\<lparr>new_currentPlan := Some p\<rparr>)"

definition setPlans :: "'p list \<Rightarrow> ('p, 's) planState \<Rightarrow> ('p, 's) planState" where
  "setPlans ps st = zset st (noPatch\<lparr>new_plans := Some ps\<rparr>)"

definition setSyllabi :: "'s \<Rightarrow> ('p, 's) planState \<Rightarrow> ('p, 's) planState" where
  "setSyllabi ss st = zset st (noPatch\<lparr>new_syllabi := Some ss\<rparr>)"

definition addPlan :: "'p \<Rightarrow> ('p, 's) planState \<Rightarrow> ('p, 's) planState" where
  "addPlan p st = zset st (noPatch\<lparr>new_plans := Some (p # plans st)\<rparr>)"

text \<open>\<open>task.id === taskId ? { ...task, ...updates } : task\<close>\<close>

definition updateOne :: "string \<Rightarrow> (string \<times> jsval) list \<Rightarrow> task \<Rightarrow> task" where
  "updateOne taskId updates t =
     (if map_of t ''id'' = Some (JStr taskId) then spread t updates else t)"

definition updatePlan :: "string \<Rightarrow> (string \<times> jsval) list \<Rightarrow> plan \<Rightarrow> plan" where
  "updatePlan taskId updates p =
     p\<lparr>plan_data := (plan_data p)\<lparr>weeks :=
        map (\<lambda>wk. wk\<lparr>tasks := map (updateOne taskId updates) (tasks wk)\<rparr>)
          (weeks (plan_data p))\<rparr>\<rparr>"

definition updateTask ::
  "string \<Rightarrow> (string \<times> jsval) list \<Rightarrow> (plan, 's) planState \<Rightarrow> (plan, 's) planState" where
  "updateTask taskId updates st =
     zset st
       (case currentPlan st of
          None \<Rightarrow> wholeState st
        | Some p \<Rightarrow> noPatch\<lparr>new_currentPlan := Some (Some (updatePlan taskId updates p))\<rparr>)"

section \<open>The dashboard page (app/dashboard/page.tsx)\<close>

record dashboard =
  planStore :: "(plan, jsval) planState"
  progress :: jsval
  updatingTask :: "string option"
  selectedTask :: "task option"
  isModalOpen :: bool
  loading :: bool

text \<open>
  An \<open>async\<close> handler runs up to its first \<open>await\<close> and is resumed when the awaited
  call settles. \<open>handleTaskSave_begin\<close> is the page at the first \<open>await\<close> of
  \<open>handleTaskSave\<close>: the request of \<open>plansAPI.updateTask\<close> is in flight and has not
  settled. The handler reads \<open>currentPlan\<close> as the component rendered it, which is the
  store's value when the handler starts.
\<close>

definition handleTaskSave_begin :: "string \<Rightarrow> (string \<times> jsval) list \<Rightarrow> dashboard \<Rightarrow> dashboard" where
  "handleTaskSave_begin taskId updates pg =
     pg\<lparr>updatingTask := Some taskId,
        planStore := updateTask taskId updates (planStore pg)\<rparr>"

definition handleTaskSave_catch :: "world \<Rightarrow> world" where
  "handleTaskSave_catch w = w\<lparr>console := console w @ [''Failed to update task:'']\<rparr>"

definition handleTaskSave_finally :: "dashboard \<Rightarrow> dashboard" where
  "handleTaskSave_finally pg = pg\<lparr>updatingTask := None\<rparr>"

definition handleTaskSave ::
  "server \<Rightarrow> string \<Rightarrow> (string \<times> jsval) list \<Rightarrow> dashboard \<times> world \<Rightarrow> dashboard \<times> world" where
  "handleTaskSave srv taskId updates pw =
     (case pw of (pg, w) \<Rightarrow>
        (case currentPlan (planStore pg) of
           None \<Rightarrow> (pg, w)
         | Some cp \<Rightarrow>
             (let pg1 = handleTaskSave_begin taskId updates pg in
              case plansAPI_updateTask srv w (plan_id cp) taskId updates of
                (Rejected e, w1) \<Rightarrow> (handleTaskSave_finally pg1, handleTaskSave_catch w1)
              | (Resolved r, w1) \<Rightarrow>
                  (case plansAPI_getProgress srv w1 (plan_id cp) of
                     (Rejected e, w2) \<Rightarrow> (handleTaskSave_finally pg1, handleTaskSave_catch w2)
                   | (Resolved prog, w2) \<Rightarrow>
                       (handleTaskSave_finally (pg1\<lparr>progress := prog\<rparr>), w2)))))"

subsection \<open>The plan card\<close>

text \<open>\<open>Array.prototype.slice(start, stop)\<close>.\<close>

definition slice :: "int \<Rightarrow> int \<Rightarrow> 'a list \<Rightarrow> 'a list" where
  "slice start stop xs =
     (let len = int (length xs);
          k = (if start < 0 then max (len + start) 0 else min start len);
          final = (if stop < 0 then max (len + stop) 0 else min stop len)
      in take (nat (final - k)) (drop (nat k) xs))"

text \<open>
  What the card shows of a plan, without its styling: the badge, and for each rendered
  week its key, its heading, its two dates (as stored; the page prints them in the
  browser's locale) and its tasks (key, title, status badge, whether it is struck
  through as completed, and whether it pulses as the task being saved).
\<close>

record taskView =
  task_key :: jsval
  task_title :: jsval
  task_status :: jsval
  isCompleted :: bool
  pulsing :: bool

record weekView =
  week_key :: int
  heading :: string
  dates :: "string \<times> string"
  taskViews :: "taskView list"

record planCard =
  card_title :: string
  card_description :: "string option"
  badge :: string
  weekViews :: "weekView list"

definition renderTask :: "string option \<Rightarrow> task \<Rightarrow> taskView" where
  "renderTask updating t =
     \<lparr>task_key = field (JObj t) ''id'',
      task_title = field (JObj t) ''title'',
      task_status = field (JObj t) ''status'',
      isCompleted = (field (JObj t) ''status'' = JStr ''completed''),
      pulsing = (case updating of None \<Rightarrow> False | Some u \<Rightarrow> field (JObj t) ''id'' = JStr u)\<rparr>"

definition renderWeek :: "string option \<Rightarrow> week \<Rightarrow> weekView" where
  "renderWeek updating wk =
     \<lparr>week_key = week_number wk,
      heading = ''Week '' @ showInt (week_number wk),
      dates = (start_date wk, end_date wk),
      taskViews = map (renderTask updating) (tasks wk)\<rparr>"

definition planCardOf :: "string option \<Rightarrow> plan \<Rightarrow> planCard" where
  "planCardOf updating p =
     \<lparr>card_title = title p,
      card_description = description p,
      badge = showInt (int (length (weeks (plan_data p)))) @ '' Weeks'',
      weekViews = map (renderWeek updating) (slice 0 4 (weeks (plan_data p)))\<rparr>"

text \<open>
  What \<open>DashboardPage\<close> returns. While \<open>loading\<close> is set it returns the loading
  screen, before anything of the page. Otherwise it returns the page, whose plan section
  is \<open>currentPlan ? <Card ...> : <empty state>\<close>.
\<close>

datatype dashboardView = LoadingScreen | Dashboard "planCard option"

definition DashboardPage :: "dashboard \<Rightarrow> dashboardView" where
  "DashboardPage pg =
     (if loading pg then LoadingScreen
      else Dashboard (map_option (planCardOf (updatingTask pg)) (currentPlan (planStore pg))))"

section \<open>The upload page (app/upload/page.tsx)\<close>

text \<open>
  The component's state and the plan store it writes to. The page renders (and its
  handlers can be reached) only when the auth store says the user is authenticated.
\<close>

record uploadPage =
  the_file :: "jsfile option"
  uploading :: bool
  parsing :: bool
  generating :: bool
  syllabusId :: jsval
  parsedData :: jsval
  error :: jsval
  studyHours :: int
  selectedDays :: "string list"
  store :: "(jsval, jsval) planState"

text \<open>\<open>err.response?.data?.detail\<close>\<close>

definition errorDetail :: "error \<Rightarrow> jsval" where
  "errorDetail err =
     (case err of
        AxiosError c (Some r) \<Rightarrow> optField (snd r) ''detail''
      | _ \<Rightarrow> JUndefined)"

subsection \<open>handleUpload\<close>

definition handleUpload_begin :: "uploadPage \<Rightarrow> uploadPage" where
  "handleUpload_begin pg = pg\<lparr>uploading := True, parsing := True, error := JStr []\<rparr>"

definition handleUpload_catch :: "error \<Rightarrow> uploadPage \<Rightarrow> uploadPage" where
  "handleUpload_catch err pg = pg\<lparr>error := orElse (errorDetail err) (JStr ''Upload failed'')\<rparr>"

definition handleUpload_finally :: "uploadPage \<Rightarrow> uploadPage" where
  "handleUpload_finally pg = pg\<lparr>uploading := False, parsing := False\<rparr>"

text \<open>The page at the second \<open>await\<close>, once the upload has resolved with \<open>response\<close>.\<close>

definition handleUpload_uploaded :: "jsval \<Rightarrow> uploadPage \<Rightarrow> uploadPage" where
  "handleUpload_uploaded response pg =
     pg\<lparr>syllabusId := field response ''syllabus_id'',
        parsedData := field response ''parsed_data''\<rparr>"

definition handleUpload :: "server \<Rightarrow> uploadPage \<times> world \<Rightarrow> uploadPage \<times> world" where
  "handleUpload srv pw =
     (case pw of (pg, w) \<Rightarrow>
        (case the_file pg of
           None \<Rightarrow> (pg, w)
         | Some f \<Rightarrow>
             (let pg1 = handleUpload_begin pg in
              case syllabusAPI_upload srv w f of
                (Rejected err, w1) \<Rightarrow> (handleUpload_finally (handleUpload_catch err pg1), w1)
              | (Resolved response, w1) \<Rightarrow>
                  if nullish response then
                    (handleUpload_finally (handleUpload_catch TypeError pg1), w1)
                  else
                    (let pg2 = handleUpload_uploaded response pg1 in
                     case syllabusAPI_getAll srv w1 of
                       (Rejected err, w2) \<Rightarrow>
                         (handleUpload_finally (handleUpload_catch err pg2), w2)
                     | (Resolved syllabiRes, w2) \<Rightarrow>
                         if nullish syllabiRes then
                           (handleUpload_finally (handleUpload_catch TypeError pg2), w2)
                         else
                           (handleUpload_finally
                              (pg2\<lparr>store := setSyllabi
                                 (orElse (field syllabiRes ''syllabi'') (JArr [])) (store pg2)\<rparr>),
                            w2)))))"

subsection \<open>handleGeneratePlan\<close>

definition handleGeneratePlan_begin :: "uploadPage \<Rightarrow> uploadPage" where
  "handleGeneratePlan_begin pg = pg\<lparr>generating := True, error := JStr []\<rparr>"

definition handleGeneratePlan_catch :: "error \<Rightarrow> uploadPage \<Rightarrow> uploadPage" where
  "handleGeneratePlan_catch err pg =
     pg\<lparr>error := orElse (errorDetail err) (JStr ''Plan generation failed'')\<rparr>"

definition handleGeneratePlan_finally :: "uploadPage \<Rightarrow> uploadPage" where
  "handleGeneratePlan_finally pg = pg\<lparr>generating := False\<rparr>"

definition handleGeneratePlan :: "server \<Rightarrow> uploadPage \<times> world \<Rightarrow> uploadPage \<times> world" where
  "handleGeneratePlan srv pw =
     (case pw of (pg, w) \<Rightarrow>
        if \<not> truthy (syllabusId pg) then (pg, w)
        else
          (let pg1 = handleGeneratePlan_begin pg in
           case plansAPI_generate srv w (syllabusId pg)
                  [(''study_hours_per_day'', JNum (studyHours pg)),
                   (''study_days'', JArr (map JStr (selectedDays pg)))] of
             (Rejected err, w1) \<Rightarrow>
               (handleGeneratePlan_finally (handleGeneratePlan_catch err pg1), w1)
           | (Resolved p, w1) \<Rightarrow>
               (handleGeneratePlan_finally (pg1\<lparr>store := addPlan p (store pg1)\<rparr>),
                w1\<lparr>router := router w1 @ [''/dashboard'']\<rparr>)))"

subsection \<open>The upload card\<close>

text \<open>
  Step 1 of the page: the drop zone while no file is chosen, else the file with the
  \<open>Upload & Parse\<close> button (its \<open>disabled\<close> attribute and whether it shows the
  in-progress label) and the spinner.
\<close>

datatype uploadCard =
    DropZone
  | FileChosen string (button_disabled: bool) (button_busy_label: bool) (spinner: bool)

definition renderUploadCard :: "uploadPage \<Rightarrow> uploadCard" where
  "renderUploadCard pg =
     (case the_file pg of
        None \<Rightarrow> DropZone
      | Some f \<Rightarrow> FileChosen (file_name f) (uploading pg) (uploading pg) (parsing pg))"

subsection \<open>The error display\<close>

text \<open>
  How React renders a value as a child: the text of a string or a number, nothing for a
  boolean, \<open>null\<close> or \<open>undefined\<close>, the children in turn for an array. A plain object
  is not a valid child: rendering fails (\<open>None\<close>).
\<close>

fun reactChild :: "jsval \<Rightarrow> string option" where
  "reactChild JUndefined = Some []"
| "reactChild JNull = Some []"
| "reactChild (JBool b) = Some []"
| "reactChild (JNum n) = Some (showInt n)"
| "reactChild (JStr s) = Some s"
| "reactChild (JArr xs) = map_option concat (those (map reactChild xs))"
| "reactChild (JObj kvs) = None"

text \<open>
  \<open>{error && (<Card> ... <p>{error}</p> ... </Card>)}\<close>: a truthy \<open>error\<close> is rendered
  inside the red card; a falsy one is itself the child.
\<close>

datatype errorDisplay = NoBanner | BareText string | Banner string | RenderFails

definition renderError :: "uploadPage \<Rightarrow> errorDisplay" where
  "renderError pg =
     (if truthy (error pg) then
        (case reactChild (error pg) of Some s \<Rightarrow> Banner s | None \<Rightarrow> RenderFails)
      else
        (case reactChild (error pg) of
           Some s \<Rightarrow> if s = [] then NoBanner else BareText s
         | None \<Rightarrow> RenderFails))"

section \<open>Vocabulary of the statements\<close>

text \<open>
  The message of a failure whose \<open>detail\<close> is a string, or is absent or otherwise
  falsy: the detail if it is a non-empty string, else the fallback. A truthy detail that
  is not a string has no message here (\<open>None\<close>).
\<close>

definition surfaced :: "jsval \<Rightarrow> string \<Rightarrow> string option" where
  "surfaced detail fallback =
     (case detail of
        JStr s \<Rightarrow> Some (if s \<noteq> [] then s else fallback)
      | d \<Rightarrow> if truthy d then None else Some fallback)"

text \<open>
  The refresh call of the response interceptor: the config and the request of
  \<open>axios.post(`${API_BASE_URL}/auth/refresh`, { refresh_token })\<close>, and what its \<open>try\<close>
  block makes of the reply: the error that reaches the \<open>catch\<close>, or the new token as
  it is stored and put into the header.
\<close>

definition refreshConfig :: "world \<Rightarrow> string \<Rightarrow> config" where
  "refreshConfig w rt =
     \<lparr>http_method = ''post'', url = API_BASE_URL w @ ''/auth/refresh'', headers = Map.empty,
      data = JObj [(''refresh_token'', JStr rt)], retry = False\<rparr>"

definition refreshRequest :: "world \<Rightarrow> string \<Rightarrow> request" where
  "refreshRequest w rt =
     \<lparr>http_method = ''post'', url = API_BASE_URL w @ ''/auth/refresh'', headers = Map.empty,
      data = JObj [(''refresh_token'', JStr rt)]\<rparr>"

definition refreshResult :: "world \<Rightarrow> string \<Rightarrow> reply \<Rightarrow> error + string" where
  "refreshResult w rt rep =
     (case settle (refreshConfig w rt) rep of
        Rejected e \<Rightarrow> Inl e
      | Resolved r \<Rightarrow>
          if nullish (snd r) then Inl TypeError
          else Inr (toStr (field (snd r) ''access_token'')))"

text \<open>The original config as it is reissued: \<open>_retry\<close> set, the new bearer token.\<close>

definition reissued :: "config \<Rightarrow> string \<Rightarrow> config" where
  "reissued c tok =
     c\<lparr>retry := True, headers := (headers c)(''Authorization'' \<mapsto> ''Bearer '' @ tok)\<rparr>"

text \<open>Local storage without the two token keys.\<close>

definition otherStorage :: "world \<Rightarrow> (string \<rightharpoonup> string)" where
  "otherStorage w = (localStorage w)(''access_token'' := None, ''refresh_token'' := None)"

text \<open>The auth store's invariant, and runs of its two actions.\<close>

definition authInv :: "authState \<Rightarrow> bool" where
  "authInv st = (isAuthenticated st = (user st \<noteq> None))"

datatype authAction = SetUser "user option" | Logout

fun authStep :: "authState \<times> world \<Rightarrow> authAction \<Rightarrow> authState \<times> world" where
  "authStep (st, w) (SetUser u) = (setUser u st, w)"
| "authStep (st, w) Logout = logout (st, w)"

definition authRun :: "authAction list \<Rightarrow> world \<Rightarrow> authState \<times> world" where
  "authRun acts w = foldl authStep (initialAuth, w) acts"

section \<open>Example inputs\<close>

definition demoWorld :: world where
  "demoWorld =
     \<lparr>localStorage = [''access_token'' \<mapsto> ''old'', ''refresh_token'' \<mapsto> ''r1'',
                      ''ui-storage'' \<mapsto> ''{}''],
      location_href = ''/upload'', sent = [], router = [], console = [],
      NEXT_PUBLIC_API_URL = Some ''http://api''\<rparr>"

definition freshWorld :: world where
  "freshWorld =
     \<lparr>localStorage = Map.empty, location_href = ''/login'', sent = [], router = [],
      console = [], NEXT_PUBLIC_API_URL = Some ''http://api''\<rparr>"

text \<open>A browser whose \<open>access_token\<close> key holds the empty string.\<close>

definition emptyTokenWorld :: world where
  "emptyTokenWorld =
     \<lparr>localStorage = [''access_token'' \<mapsto> []], location_href = ''/dashboard'', sent = [],
      router = [], console = [], NEXT_PUBLIC_API_URL = Some ''http://api''\<rparr>"

definition demoConfig :: config where
  "demoConfig = instanceConfig ''get'' ''/plans/'' JUndefined Map.empty"

text \<open>Servers: one that answers 401 to everything, one that refreshes tokens but answers
  401 to every other request, one that is unreachable, one that only knows the login.\<close>

definition denyAll :: server where
  "denyAll hist r = Reply 401 (JObj [(''detail'', JStr ''Not authenticated'')])"

definition refreshOnly :: server where
  "refreshOnly hist r =
     (if url r = ''http://api/auth/refresh''
      then Reply 200 (JObj [(''access_token'', JStr ''new'')])
      else Reply 401 (JObj [(''detail'', JStr ''Not authenticated'')]))"

definition offline :: server where
  "offline hist r = NoReply"

definition loginOnly :: server where
  "loginOnly hist r =
     (if url r = ''http://api/auth/login''
      then Reply 200 (JObj [(''access_token'', JStr ''A1''), (''refresh_token'', JStr ''R1'')])
      else Reply 404 JNull)"

definition uploadOnly :: server where
  "uploadOnly hist r =
     (if url r = ''http://api/syllabus/upload''
      then Reply 200 (JObj [(''syllabus_id'', JNum 5), (''parsed_data'', JObj [])])
      else NoReply)"

definition demoFile :: jsfile where
  "demoFile = \<lparr>file_name = ''cs101.pdf'', file_size = 2048\<rparr>"

definition demoUpload :: uploadPage where
  "demoUpload =
     \<lparr>the_file = Some demoFile, uploading = False, parsing = False, generating = False,
      syllabusId = JNum 5, parsedData = JNull, error = JStr [], studyHours = 3,
      selectedDays = [''monday'', ''tuesday''],
      store = \<lparr>currentPlan = None, plans = [], syllabi = JArr []\<rparr>\<rparr>"

definition demoTask :: "string \<Rightarrow> task" where
  "demoTask i = [(''id'', JStr i), (''title'', JStr ''Read''), (''status'', JStr ''pending'')]"

definition demoWeek :: "int \<Rightarrow> week" where
  "demoWeek n =
     \<lparr>week_number = n, start_date = ''2025-01-06'', end_date = ''2025-01-12'',
      tasks = [demoTask ''t1'', demoTask ''t2''], week_notes = None\<rparr>"

definition demoPlan :: plan where
  "demoPlan =
     \<lparr>plan_id = 7, title = ''CS101'', description = None, status = ''active'',
      plan_data = \<lparr>sp_title = ''CS101'', sp_description = None,
                   weeks = [demoWeek 1, demoWeek 2, demoWeek 3, demoWeek 4, demoWeek 5],
                   total_study_hours = None, preferences = JObj [], metadata = JObj []\<rparr>,
      plan_created_at = ''2025-01-01'', updated_at = None, version_number = 1\<rparr>"

definition demoDashboard :: dashboard where
  "demoDashboard =
     \<lparr>planStore = \<lparr>currentPlan = Some demoPlan, plans = [demoPlan], syllabi = JArr []\<rparr>,
      progress = JNull, updatingTask = None, selectedTask = None, isModalOpen = True,
      loading = False\<rparr>"

section \<open>The API client: one refresh, one retry\<close>

lemma retry_requestInterceptor [simp]: "retry (requestInterceptor w c) = retry c"
  by (simp add: requestInterceptor_def split: option.splits)

lemma settle_Rejected: "settle c rep = Rejected e \<Longrightarrow> \<exists>r. e = AxiosError c r"
  by (auto simp: settle_def split: reply.splits if_splits)

lemma responseRejected_Reissue:
  "responseRejected srv w (AxiosError c r) = (Reissue c2, w2) \<Longrightarrow> retry c2 \<and> \<not> retry c"
  by (auto simp: responseRejected_def Let_def split: if_splits option.splits prod.splits promise.splits)

lemma responseRejected_retried:
  "retry c \<Longrightarrow> responseRejected srv w (AxiosError c r) = (Settled (Rejected (AxiosError c r)), w)"
  by (simp add: responseRejected_def)

lemma api_step:
  "api srv w c =
     (case settle (requestInterceptor w c) (srv (sent w) (wire w (requestInterceptor w c))) of
        Resolved r \<Rightarrow> (Resolved r, w\<lparr>sent := sent w @ [wire w (requestInterceptor w c)]\<rparr>)
      | Rejected e \<Rightarrow>
          (case responseRejected srv (w\<lparr>sent := sent w @ [wire w (requestInterceptor w c)]\<rparr>) e of
             (Settled p, w2) \<Rightarrow> (p, w2)
           | (Reissue c2, w2) \<Rightarrow> api srv w2 c2))"
  by (subst api.simps) (simp add: dispatch_def Let_def)

text \<open>A config whose \<open>_retry\<close> flag is set is sent once, whatever the reply.\<close>

lemma api_retried:
  assumes "retry c"
  shows "api srv w c =
           (settle (requestInterceptor w c) (srv (sent w) (wire w (requestInterceptor w c))),
            w\<lparr>sent := sent w @ [wire w (requestInterceptor w c)]\<rparr>)"
proof -
  let ?c1 = "requestInterceptor w c"
  have r: "retry ?c1" using assms by simp
  show ?thesis
  proof (cases "settle ?c1 (srv (sent w) (wire w ?c1))")
    case (Resolved x)
    then show ?thesis
      by (simp add: api_step)
  next
    case (Rejected e)
    then obtain rr where "e = AxiosError ?c1 rr"
      using settle_Rejected by blast
    with Rejected r show ?thesis
      by (simp add: api_step responseRejected_retried)
  qed
qed

lemma getItem_sent [simp]: "getItem (w\<lparr>sent := s\<rparr>) k = getItem w k"
  by (simp add: getItem_def)

lemma API_BASE_URL_sent [simp]: "API_BASE_URL (w\<lparr>sent := s\<rparr>) = API_BASE_URL w"
  by (simp add: API_BASE_URL_def)

lemma settle_401 [simp]: "settle c (Reply 401 d) = Rejected (AxiosError c (Some (401, d)))"
  by (simp add: settle_def)

lemma responseRejected_no_token:
  assumes "\<not> retry c" and "\<not> present (getItem w ''refresh_token'')"
  shows "responseRejected srv w (AxiosError c (Some (401, d))) =
           (Settled (Rejected (AxiosError (c\<lparr>retry := True\<rparr>) (Some (401, d)))), w)"
  using assms by (simp add: responseRejected_def present_def split: option.splits)

lemma responseRejected_refresh_failed:
  assumes "\<not> retry c" and "getItem w ''refresh_token'' = Some rt" and "rt \<noteq> []"
    and "refreshResult w rt (srv (sent w) (refreshRequest w rt)) = Inl e"
  shows "responseRejected srv w (AxiosError c (Some (401, d))) =
           (Settled (Rejected e), catchRefreshError (w\<lparr>sent := sent w @ [refreshRequest w rt]\<rparr>))"
  using assms
  by (auto simp add: responseRejected_def axios_post_def dispatch_def refreshResult_def
      refreshConfig_def refreshRequest_def Let_def split: promise.splits if_splits)

lemma responseRejected_refreshed:
  assumes "\<not> retry c" and "getItem w ''refresh_token'' = Some rt" and "rt \<noteq> []"
    and "refreshResult w rt (srv (sent w) (refreshRequest w rt)) = Inr tok"
  shows "responseRejected srv w (AxiosError c (Some (401, d))) =
           (Reissue (reissued c tok),
            (w\<lparr>sent := sent w @ [refreshRequest w rt]\<rparr>)
              \<lparr>localStorage := (localStorage w)(''access_token'' \<mapsto> tok)\<rparr>)"
  using assms
  by (auto simp add: responseRejected_def axios_post_def dispatch_def refreshResult_def
      refreshConfig_def refreshRequest_def reissued_def setItem_def Let_def
      split: promise.splits if_splits)

text \<open>The request interceptor finds the token the refresh has just stored, so the
  reissued config passes through it unchanged.\<close>

lemma requestInterceptor_reissued:
  assumes "localStorage w ''access_token'' = Some tok"
  shows "requestInterceptor w (reissued c tok) = reissued c tok"
  using assms by (simp add: requestInterceptor_def reissued_def getItem_def)

lemma api_401_no_token:
  assumes "\<not> retry c" and "srv (sent w) (wire w (requestInterceptor w c)) = Reply 401 d"
    and "\<not> present (getItem w ''refresh_token'')"
  shows "api srv w c =
           (Rejected (AxiosError ((requestInterceptor w c)\<lparr>retry := True\<rparr>) (Some (401, d))),
            w\<lparr>sent := sent w @ [wire w (requestInterceptor w c)]\<rparr>)"
  using assms by (simp add: api_step responseRejected_no_token)

lemma api_401_refresh_failed:
  assumes "\<not> retry c" and "srv (sent w) (wire w (requestInterceptor w c)) = Reply 401 d"
    and "getItem w ''refresh_token'' = Some rt" and "rt \<noteq> []"
    and "refreshResult w rt
           (srv (sent w @ [wire w (requestInterceptor w c)]) (refreshRequest w rt)) = Inl e"
  shows "api srv w c =
           (Rejected e,
            catchRefreshError
              (w\<lparr>sent := sent w @ [wire w (requestInterceptor w c), refreshRequest w rt]\<rparr>))"
proof -
  let ?w1 = "w\<lparr>sent := sent w @ [wire w (requestInterceptor w c)]\<rparr>"
  have "responseRejected srv ?w1 (AxiosError (requestInterceptor w c) (Some (401, d))) =
          (Settled (Rejected e),
           catchRefreshError (?w1\<lparr>sent := sent ?w1 @ [refreshRequest ?w1 rt]\<rparr>))"
    using assms
    by (intro responseRejected_refresh_failed)
      (simp_all add: refreshRequest_def refreshResult_def refreshConfig_def)
  then show ?thesis
    using assms(2) by (simp add: api_step refreshRequest_def)
qed

lemma api_401_refreshed:
  assumes "\<not> retry c" and "srv (sent w) (wire w (requestInterceptor w c)) = Reply 401 d"
    and "getItem w ''refresh_token'' = Some rt" and "rt \<noteq> []"
    and "refreshResult w rt
           (srv (sent w @ [wire w (requestInterceptor w c)]) (refreshRequest w rt)) = Inr tok"
  shows "api srv w c =
           (settle (reissued (requestInterceptor w c) tok)
              (srv (sent w @ [wire w (requestInterceptor w c), refreshRequest w rt])
                 (wire w (reissued (requestInterceptor w c) tok))),
            w\<lparr>sent := sent w @ [wire w (requestInterceptor w c), refreshRequest w rt,
                                wire w (reissued (requestInterceptor w c) tok)],
              localStorage := (localStorage w)(''access_token'' \<mapsto> tok)\<rparr>)"
proof -
  let ?c1 = "requestInterceptor w c"
  let ?w1 = "w\<lparr>sent := sent w @ [wire w ?c1]\<rparr>"
  let ?w2 = "(?w1\<lparr>sent := sent ?w1 @ [refreshRequest ?w1 rt]\<rparr>)
               \<lparr>localStorage := (localStorage ?w1)(''access_token'' \<mapsto> tok)\<rparr>"
  have rr: "responseRejected srv ?w1 (AxiosError ?c1 (Some (401, d))) =
              (Reissue (reissued ?c1 tok), ?w2)"
    using assms
    by (intro responseRejected_refreshed)
      (simp_all add: refreshRequest_def refreshResult_def refreshConfig_def)
  have ri: "requestInterceptor ?w2 (reissued ?c1 tok) = reissued ?c1 tok"
    by (rule requestInterceptor_reissued) simp
  have "api srv w c = api srv ?w2 (reissued ?c1 tok)"
    using assms(2) rr by (simp add: api_step)
  also have "\<dots> = (settle (reissued ?c1 tok) (srv (sent ?w2) (wire ?w2 (reissued ?c1 tok))),
                    ?w2\<lparr>sent := sent ?w2 @ [wire ?w2 (reissued ?c1 tok)]\<rparr>)"
    using ri by (simp add: api_retried reissued_def)
  finally show ?thesis
    by (simp add: refreshRequest_def wire_def API_BASE_URL_def)
qed

lemmas demo_defs = demoWorld_def demoConfig_def instanceConfig_def requestInterceptor_def
  wire_def getItem_def API_BASE_URL_def present_def refreshRequest_def refreshResult_def
  refreshConfig_def settle_def nullish_def field_def reissued_def

text \<open>A reply the library resolves, and a network failure, end the call at once.\<close>

lemma api_resolved:
  assumes "srv (sent w) (wire w (requestInterceptor w c)) = Reply st d"
    and "200 \<le> st" and "st < 300"
  shows "api srv w c = (Resolved (st, d), w\<lparr>sent := sent w @ [wire w (requestInterceptor w c)]\<rparr>)"
  using assms by (simp add: api_step settle_def)

lemma api_no_reply:
  assumes "srv (sent w) (wire w (requestInterceptor w c)) = NoReply"
  shows "api srv w c =
           (Rejected (AxiosError (requestInterceptor w c) None),
            w\<lparr>sent := sent w @ [wire w (requestInterceptor w c)]\<rparr>)"
  using assms by (simp add: api_step settle_def responseRejected_def)

text \<open>
  Frame of a call through the instance: whatever happens, local storage keeps every key
  but the two token keys, and neither the router nor the console is touched.
\<close>

lemma responseRejected_frame:
  assumes "responseRejected srv w e = (out, w')"
  shows "otherStorage w' = otherStorage w \<and> router w' = router w \<and> console w' = console w"
  using assms
  by (auto simp add: responseRejected_def axios_post_def dispatch_def catchRefreshError_def
      setItem_def removeItem_def otherStorage_def Let_def
      split: error.splits if_splits option.splits promise.splits prod.splits)

lemma api_frame:
  "otherStorage (snd (api srv w c)) = otherStorage w
   \<and> router (snd (api srv w c)) = router w
   \<and> console (snd (api srv w c)) = console w"
proof (cases "settle (requestInterceptor w c) (srv (sent w) (wire w (requestInterceptor w c)))")
  case (Resolved r)
  then show ?thesis
    by (simp add: api_step otherStorage_def)
next
  case (Rejected e)
  let ?w1 = "w\<lparr>sent := sent w @ [wire w (requestInterceptor w c)]\<rparr>"
  obtain out w2 where rr: "responseRejected srv ?w1 e = (out, w2)"
    by (cases "responseRejected srv ?w1 e")
  then have f: "otherStorage w2 = otherStorage w \<and> router w2 = router w \<and> console w2 = console w"
    using responseRejected_frame [OF rr] by (simp add: otherStorage_def)
  show ?thesis
  proof (cases out)
    case (Settled p)
    with Rejected rr f show ?thesis
      by (simp add: api_step)
  next
    case (Reissue c2)
    from Rejected obtain r where "e = AxiosError (requestInterceptor w c) r"
      using settle_Rejected by blast
    with rr Reissue have "retry c2"
      using responseRejected_Reissue by blast
    then have "snd (api srv w2 c2) = w2\<lparr>sent := sent w2 @ [wire w2 (requestInterceptor w2 c2)]\<rparr>"
      by (simp add: api_retried)
    with Rejected rr Reissue f show ?thesis
      by (simp add: api_step otherStorage_def)
  qed
qed

lemma snd_dataOf [simp]: "snd (dataOf pw) = snd pw"
  by (simp add: dataOf_def split: prod.splits promise.splits)

lemma fst_dataOf_Rejected [simp]: "fst (dataOf pw) = Rejected e \<longleftrightarrow> fst pw = Rejected e"
  by (auto simp add: dataOf_def split: prod.splits promise.splits)

text \<open>
  Claim C1. Take a request through the instance whose config has no \<open>_retry\<close> flag and
  whose reply is a 401. Then the instance sends, after the request itself, one of:
  nothing (no refresh token stored); the refresh POST only (the refresh failed); or the
  refresh POST followed by the original request once more, with the new bearer token.
  So there is at most one refresh and it is followed by exactly one retry. If the retry
  is answered 401 again, that error (its config now flagged \<open>_retry\<close>) is rejected to
  the caller, and the log shows nothing was sent after the retry.
\<close>

theorem one_refresh_then_one_retry:
  assumes "\<not> retry c"
    and "srv (sent w) (wire w (requestInterceptor w c)) = Reply 401 d"
  shows
    "(\<not> present (getItem w ''refresh_token'') \<longrightarrow>
        sent (snd (api srv w c)) = sent w @ [wire w (requestInterceptor w c)])
     \<and> (getItem w ''refresh_token'' = Some rt \<and> rt \<noteq> [] \<longrightarrow>
         (refreshResult w rt
            (srv (sent w @ [wire w (requestInterceptor w c)]) (refreshRequest w rt)) = Inl e \<longrightarrow>
          sent (snd (api srv w c)) =
            sent w @ [wire w (requestInterceptor w c), refreshRequest w rt])
         \<and> (refreshResult w rt
              (srv (sent w @ [wire w (requestInterceptor w c)]) (refreshRequest w rt)) = Inr tok \<longrightarrow>
            sent (snd (api srv w c)) =
              sent w @ [wire w (requestInterceptor w c), refreshRequest w rt,
                        (wire w (requestInterceptor w c))
                          \<lparr>headers := (headers (requestInterceptor w c))
                                        (''Authorization'' \<mapsto> ''Bearer '' @ tok)\<rparr>]
            \<and> getItem (snd (api srv w c)) ''access_token'' = Some tok
            \<and> (srv (sent w @ [wire w (requestInterceptor w c), refreshRequest w rt])
                  (wire w (reissued (requestInterceptor w c) tok)) = Reply 401 d' \<longrightarrow>
                fst (api srv w c) =
                  Rejected (AxiosError (reissued (requestInterceptor w c) tok) (Some (401, d'))))))"
proof (intro conjI impI)
  assume "\<not> present (getItem w ''refresh_token'')"
  with assms show "sent (snd (api srv w c)) = sent w @ [wire w (requestInterceptor w c)]"
    by (simp add: api_401_no_token)
next
  assume "getItem w ''refresh_token'' = Some rt \<and> rt \<noteq> []"
    and "refreshResult w rt
           (srv (sent w @ [wire w (requestInterceptor w c)]) (refreshRequest w rt)) = Inl e"
  with assms show "sent (snd (api srv w c)) =
      sent w @ [wire w (requestInterceptor w c), refreshRequest w rt]"
    by (simp add: api_401_refresh_failed catchRefreshError_def removeItem_def)
next
  assume tok: "getItem w ''refresh_token'' = Some rt \<and> rt \<noteq> []"
    "refreshResult w rt
       (srv (sent w @ [wire w (requestInterceptor w c)]) (refreshRequest w rt)) = Inr tok"
  with assms have a: "api srv w c =
       (settle (reissued (requestInterceptor w c) tok)
          (srv (sent w @ [wire w (requestInterceptor w c), refreshRequest w rt])
             (wire w (reissued (requestInterceptor w c) tok))),
        w\<lparr>sent := sent w @ [wire w (requestInterceptor w c), refreshRequest w rt,
                            wire w (reissued (requestInterceptor w c) tok)],
          localStorage := (localStorage w)(''access_token'' \<mapsto> tok)\<rparr>)"
    by (intro api_401_refreshed) simp_all
  show "sent (snd (api srv w c)) =
          sent w @ [wire w (requestInterceptor w c), refreshRequest w rt,
                    (wire w (requestInterceptor w c))
                      \<lparr>headers := (headers (requestInterceptor w c))
                                    (''Authorization'' \<mapsto> ''Bearer '' @ tok)\<rparr>]"
    by (simp add: a wire_def reissued_def)
  show "getItem (snd (api srv w c)) ''access_token'' = Some tok"
    by (simp add: a getItem_def)
  assume "srv (sent w @ [wire w (requestInterceptor w c), refreshRequest w rt])
            (wire w (reissued (requestInterceptor w c) tok)) = Reply 401 d'"
  then show "fst (api srv w c) =
      Rejected (AxiosError (reissued (requestInterceptor w c) tok) (Some (401, d')))"
    by (simp add: a)
qed

text \<open>On a server that refreshes tokens but still answers 401: three requests, then the
  rejection. On a server that answers 401 to the refresh too: two requests. Without a
  refresh token: one.\<close>

theorem one_refresh_then_one_retry_witness:
  "(sent (snd (api refreshOnly demoWorld demoConfig)) =
      [\<lparr>http_method = ''get'', url = ''http://api/plans/'',
         headers = [''Content-Type'' \<mapsto> ''application/json'', ''Authorization'' \<mapsto> ''Bearer old''],
         data = JUndefined\<rparr>,
       \<lparr>http_method = ''post'', url = ''http://api/auth/refresh'', headers = Map.empty,
         data = JObj [(''refresh_token'', JStr ''r1'')]\<rparr>,
       \<lparr>http_method = ''get'', url = ''http://api/plans/'',
         headers = [''Content-Type'' \<mapsto> ''application/json'', ''Authorization'' \<mapsto> ''Bearer new''],
         data = JUndefined\<rparr>]
    \<and> getItem (snd (api refreshOnly demoWorld demoConfig)) ''access_token'' = Some ''new''
    \<and> fst (api refreshOnly demoWorld demoConfig) =
        Rejected (AxiosError
          \<lparr>http_method = ''get'', url = ''/plans/'',
           headers = [''Content-Type'' \<mapsto> ''application/json'', ''Authorization'' \<mapsto> ''Bearer new''],
           data = JUndefined, retry = True\<rparr>
          (Some (401, JObj [(''detail'', JStr ''Not authenticated'')]))))
   \<and> sent (snd (api denyAll demoWorld demoConfig)) =
       [\<lparr>http_method = ''get'', url = ''http://api/plans/'',
          headers = [''Content-Type'' \<mapsto> ''application/json'', ''Authorization'' \<mapsto> ''Bearer old''],
          data = JUndefined\<rparr>,
        \<lparr>http_method = ''post'', url = ''http://api/auth/refresh'', headers = Map.empty,
          data = JObj [(''refresh_token'', JStr ''r1'')]\<rparr>]
   \<and> sent (snd (api denyAll freshWorld demoConfig)) =
       [\<lparr>http_method = ''get'', url = ''http://api/plans/'',
          headers = [''Content-Type'' \<mapsto> ''application/json''], data = JUndefined\<rparr>]"
proof (intro conjI)
  note t = one_refresh_then_one_retry [of demoConfig refreshOnly demoWorld
      "JObj [(''detail'', JStr ''Not authenticated'')]" "''r1''" TypeError "''new''"
      "JObj [(''detail'', JStr ''Not authenticated'')]"]
  from t show "sent (snd (api refreshOnly demoWorld demoConfig)) =
      [\<lparr>http_method = ''get'', url = ''http://api/plans/'',
         headers = [''Content-Type'' \<mapsto> ''application/json'', ''Authorization'' \<mapsto> ''Bearer old''],
         data = JUndefined\<rparr>,
       \<lparr>http_method = ''post'', url = ''http://api/auth/refresh'', headers = Map.empty,
         data = JObj [(''refresh_token'', JStr ''r1'')]\<rparr>,
       \<lparr>http_method = ''get'', url = ''http://api/plans/'',
         headers = [''Content-Type'' \<mapsto> ''application/json'', ''Authorization'' \<mapsto> ''Bearer new''],
         data = JUndefined\<rparr>]"
    and "getItem (snd (api refreshOnly demoWorld demoConfig)) ''access_token'' = Some ''new''"
    and "fst (api refreshOnly demoWorld demoConfig) =
        Rejected (AxiosError
          \<lparr>http_method = ''get'', url = ''/plans/'',
           headers = [''Content-Type'' \<mapsto> ''application/json'', ''Authorization'' \<mapsto> ''Bearer new''],
           data = JUndefined, retry = True\<rparr>
          (Some (401, JObj [(''detail'', JStr ''Not authenticated'')])))"
    by (simp_all add: demo_defs refreshOnly_def)
next
  show "sent (snd (api denyAll demoWorld demoConfig)) =
       [\<lparr>http_method = ''get'', url = ''http://api/plans/'',
          headers = [''Content-Type'' \<mapsto> ''application/json'', ''Authorization'' \<mapsto> ''Bearer old''],
          data = JUndefined\<rparr>,
        \<lparr>http_method = ''post'', url = ''http://api/auth/refresh'', headers = Map.empty,
          data = JObj [(''refresh_token'', JStr ''r1'')]\<rparr>]"
    using one_refresh_then_one_retry [of demoConfig denyAll demoWorld
      "JObj [(''detail'', JStr ''Not authenticated'')]" "''r1''"
      "AxiosError (refreshConfig demoWorld ''r1'')
         (Some (401, JObj [(''detail'', JStr ''Not authenticated'')]))"]
    by (simp add: demo_defs denyAll_def)
next
  show "sent (snd (api denyAll freshWorld demoConfig)) =
       [\<lparr>http_method = ''get'', url = ''http://api/plans/'',
          headers = [''Content-Type'' \<mapsto> ''application/json''], data = JUndefined\<rparr>]"
    using one_refresh_then_one_retry [of demoConfig denyAll freshWorld
      "JObj [(''detail'', JStr ''Not authenticated'')]"]
    by (simp add: demo_defs denyAll_def freshWorld_def)
qed

text \<open>
  Claim C8. After a 401 on a request without \<open>_retry\<close>: if no refresh token is stored,
  the original error is rejected and neither local storage nor the location changes; if
  the refresh is attempted and fails, the refresh error is rejected, both tokens are gone
  from local storage (every other key is kept) and the location is \<open>/login\<close>.
\<close>

theorem failed_refresh_ends_session:
  assumes "\<not> retry c"
    and "srv (sent w) (wire w (requestInterceptor w c)) = Reply 401 d"
  shows
    "(\<not> present (getItem w ''refresh_token'') \<longrightarrow>
        fst (api srv w c) =
          Rejected (AxiosError ((requestInterceptor w c)\<lparr>retry := True\<rparr>) (Some (401, d)))
        \<and> localStorage (snd (api srv w c)) = localStorage w
        \<and> location_href (snd (api srv w c)) = location_href w)
     \<and> (getItem w ''refresh_token'' = Some rt \<and> rt \<noteq> []
         \<and> refreshResult w rt
             (srv (sent w @ [wire w (requestInterceptor w c)]) (refreshRequest w rt)) = Inl e \<longrightarrow>
        fst (api srv w c) = Rejected e
        \<and> getItem (snd (api srv w c)) ''access_token'' = None
        \<and> getItem (snd (api srv w c)) ''refresh_token'' = None
        \<and> otherStorage (snd (api srv w c)) = otherStorage w
        \<and> location_href (snd (api srv w c)) = ''/login'')"
proof (intro conjI impI)
  assume "\<not> present (getItem w ''refresh_token'')"
  with assms have "api srv w c =
      (Rejected (AxiosError ((requestInterceptor w c)\<lparr>retry := True\<rparr>) (Some (401, d))),
       w\<lparr>sent := sent w @ [wire w (requestInterceptor w c)]\<rparr>)"
    by (rule api_401_no_token)
  then show "fst (api srv w c) =
        Rejected (AxiosError ((requestInterceptor w c)\<lparr>retry := True\<rparr>) (Some (401, d)))"
    and "localStorage (snd (api srv w c)) = localStorage w"
    and "location_href (snd (api srv w c)) = location_href w"
    by simp_all
next
  assume "getItem w ''refresh_token'' = Some rt \<and> rt \<noteq> []
    \<and> refreshResult w rt
        (srv (sent w @ [wire w (requestInterceptor w c)]) (refreshRequest w rt)) = Inl e"
  with assms have "api srv w c =
      (Rejected e,
       catchRefreshError
         (w\<lparr>sent := sent w @ [wire w (requestInterceptor w c), refreshRequest w rt]\<rparr>))"
    by (intro api_401_refresh_failed) simp_all
  then show "fst (api srv w c) = Rejected e"
    and "getItem (snd (api srv w c)) ''access_token'' = None"
    and "getItem (snd (api srv w c)) ''refresh_token'' = None"
    and "otherStorage (snd (api srv w c)) = otherStorage w"
    and "location_href (snd (api srv w c)) = ''/login''"
    by (simp_all add: catchRefreshError_def removeItem_def getItem_def otherStorage_def)
qed

text \<open>A server that answers 401 to the refresh as well; and the same server with an
  empty local storage.\<close>

theorem failed_refresh_ends_session_witness:
  "(fst (api denyAll demoWorld demoConfig) =
      Rejected (AxiosError (refreshConfig demoWorld ''r1'')
        (Some (401, JObj [(''detail'', JStr ''Not authenticated'')])))
    \<and> getItem (snd (api denyAll demoWorld demoConfig)) ''access_token'' = None
    \<and> getItem (snd (api denyAll demoWorld demoConfig)) ''refresh_token'' = None
    \<and> otherStorage (snd (api denyAll demoWorld demoConfig)) = otherStorage demoWorld
    \<and> location_href (snd (api denyAll demoWorld demoConfig)) = ''/login'')
   \<and> (fst (api denyAll freshWorld demoConfig) =
        Rejected (AxiosError (demoConfig\<lparr>retry := True\<rparr>)
          (Some (401, JObj [(''detail'', JStr ''Not authenticated'')])))
      \<and> localStorage (snd (api denyAll freshWorld demoConfig)) = localStorage freshWorld
      \<and> location_href (snd (api denyAll freshWorld demoConfig)) = location_href freshWorld)"
proof
  show "fst (api denyAll demoWorld demoConfig) =
      Rejected (AxiosError (refreshConfig demoWorld ''r1'')
        (Some (401, JObj [(''detail'', JStr ''Not authenticated'')])))
    \<and> getItem (snd (api denyAll demoWorld demoConfig)) ''access_token'' = None
    \<and> getItem (snd (api denyAll demoWorld demoConfig)) ''refresh_token'' = None
    \<and> otherStorage (snd (api denyAll demoWorld demoConfig)) = otherStorage demoWorld
    \<and> location_href (snd (api denyAll demoWorld demoConfig)) = ''/login''"
    using failed_refresh_ends_session [of demoConfig denyAll demoWorld
        "JObj [(''detail'', JStr ''Not authenticated'')]" "''r1''"
        "AxiosError (refreshConfig demoWorld ''r1'')
           (Some (401, JObj [(''detail'', JStr ''Not authenticated'')]))"]
    by (simp add: demo_defs denyAll_def)
  show "fst (api denyAll freshWorld demoConfig) =
        Rejected (AxiosError (demoConfig\<lparr>retry := True\<rparr>)
          (Some (401, JObj [(''detail'', JStr ''Not authenticated'')])))
      \<and> localStorage (snd (api denyAll freshWorld demoConfig)) = localStorage freshWorld
      \<and> location_href (snd (api denyAll freshWorld demoConfig)) = location_href freshWorld"
    using failed_refresh_ends_session [of demoConfig denyAll freshWorld
        "JObj [(''detail'', JStr ''Not authenticated'')]"]
    by (simp add: demo_defs denyAll_def freshWorld_def)
qed

section \<open>The request interceptor\<close>

text \<open>
  Claim C5, as stated, at a concrete input: the key \<open>access_token\<close> is present in local
  storage and holds the empty string; the interceptor's test \<open>token && config.headers\<close>
  is false, the config passes through unchanged and carries no \<open>Authorization\<close> header.
\<close>

theorem empty_access_token_no_header:
  "getItem emptyTokenWorld ''access_token'' = Some []
   \<and> requestInterceptor emptyTokenWorld demoConfig = demoConfig
   \<and> headers (requestInterceptor emptyTokenWorld demoConfig) ''Authorization'' = None"
  by (simp add: emptyTokenWorld_def getItem_def requestInterceptor_def demoConfig_def
      instanceConfig_def)

text \<open>
  Claim C5, amended. The interceptor sets \<open>Authorization\<close> to \<open>Bearer <token>\<close> when
  the stored access token is a non-empty string, and forwards the config unchanged when
  the key is absent or holds the empty string. (\<open>present\<close> is exactly: stored and
  non-empty.)
\<close>

theorem bearer_header_iff_nonempty_token:
  "(getItem w ''access_token'' = Some t \<and> t \<noteq> [] \<longrightarrow>
      requestInterceptor w c =
        c\<lparr>headers := (headers c)(''Authorization'' \<mapsto> ''Bearer '' @ t)\<rparr>)
   \<and> (\<not> present (getItem w ''access_token'') \<longrightarrow> requestInterceptor w c = c)"
  by (auto simp add: requestInterceptor_def present_def split: option.splits)

text \<open>A stored token, an empty storage, and an empty token.\<close>

theorem bearer_header_iff_nonempty_token_witness:
  "headers (requestInterceptor demoWorld demoConfig) =
     [''Content-Type'' \<mapsto> ''application/json'', ''Authorization'' \<mapsto> ''Bearer old'']
   \<and> requestInterceptor freshWorld demoConfig = demoConfig
   \<and> requestInterceptor emptyTokenWorld demoConfig = demoConfig"
  using bearer_header_iff_nonempty_token [of demoWorld "''old''" demoConfig]
    bearer_header_iff_nonempty_token [of freshWorld _ demoConfig]
    bearer_header_iff_nonempty_token [of emptyTokenWorld _ demoConfig]
  by (simp add: demoWorld_def freshWorld_def emptyTokenWorld_def getItem_def present_def
      demoConfig_def instanceConfig_def)

section \<open>The token keys\<close>

text \<open>
  Claim C2 at a concrete run. After a login, the tokens are under \<open>access_token\<close> and
  \<open>refresh_token\<close>, and \<open>getAuthToken\<close> finds nothing: it reads \<open>auth_token\<close>.
  A token written by \<open>setAuthToken\<close> goes to \<open>auth_token\<close>: the request interceptor
  does not see it, and \<open>authAPI.logout\<close> leaves it in place.
\<close>

theorem getAuthToken_misses_the_login_token:
  "getItem (snd (authAPI_login loginOnly freshWorld ''ann@uni.edu'' ''pw'')) ''access_token'' = Some ''A1''
   \<and> getItem (snd (authAPI_login loginOnly freshWorld ''ann@uni.edu'' ''pw'')) ''refresh_token'' = Some ''R1''
   \<and> getAuthToken True (snd (authAPI_login loginOnly freshWorld ''ann@uni.edu'' ''pw'')) = None
   \<and> getItem (setAuthToken True freshWorld ''T1'') ''auth_token'' = Some ''T1''
   \<and> getItem (setAuthToken True freshWorld ''T1'') ''access_token'' = None
   \<and> requestInterceptor (setAuthToken True freshWorld ''T1'') demoConfig = demoConfig
   \<and> getAuthToken True (authAPI_logout (setAuthToken True freshWorld ''T1'')) = Some ''T1''"
proof -
  let ?c = "instanceConfig ''post'' ''/auth/login''
      (JObj [(''email'', JStr ''ann@uni.edu''), (''password'', JStr ''pw'')]) Map.empty"
  let ?resp = "JObj [(''access_token'', JStr ''A1''), (''refresh_token'', JStr ''R1'')]"
  have "api loginOnly freshWorld ?c =
      (Resolved (200, ?resp),
       freshWorld\<lparr>sent := sent freshWorld @ [wire freshWorld (requestInterceptor freshWorld ?c)]\<rparr>)"
    by (rule api_resolved)
      (simp_all add: loginOnly_def wire_def instanceConfig_def requestInterceptor_def
        getItem_def freshWorld_def API_BASE_URL_def)
  then have l: "localStorage (snd (authAPI_login loginOnly freshWorld ''ann@uni.edu'' ''pw'')) =
      [''access_token'' \<mapsto> ''A1'', ''refresh_token'' \<mapsto> ''R1'']"
    by (simp add: authAPI_login_def nullish_def field_def setItem_def freshWorld_def)
  have c1: "getItem (snd (authAPI_login loginOnly freshWorld ''ann@uni.edu'' ''pw'')) ''access_token'' = Some ''A1''"
    and c2: "getItem (snd (authAPI_login loginOnly freshWorld ''ann@uni.edu'' ''pw'')) ''refresh_token'' = Some ''R1''"
    and c3: "getAuthToken True (snd (authAPI_login loginOnly freshWorld ''ann@uni.edu'' ''pw'')) = None"
    by (simp_all add: l getItem_def getAuthToken_def)
  have c4: "getItem (setAuthToken True freshWorld ''T1'') ''auth_token'' = Some ''T1''"
    and c5: "getItem (setAuthToken True freshWorld ''T1'') ''access_token'' = None"
    and c6: "requestInterceptor (setAuthToken True freshWorld ''T1'') demoConfig = demoConfig"
    and c7: "getAuthToken True (authAPI_logout (setAuthToken True freshWorld ''T1'')) = Some ''T1''"
    by (simp_all add: getItem_def getAuthToken_def setAuthToken_def setItem_def freshWorld_def
        requestInterceptor_def authAPI_logout_def removeItem_def)
  from c1 c2 c3 c4 c5 c6 c7 show ?thesis
    by (intro conjI)
qed

section \<open>The auth store\<close>

lemma authStep_inv: "authInv (fst (authStep s a))"
  by (cases s; cases a) (simp_all add: authInv_def setUser_def logout_def)

lemma authRun_inv: "authInv (fst (authRun acts w))"
proof (induction acts rule: rev_induct)
  case Nil
  show ?case by (simp add: authRun_def authInv_def initialAuth_def)
next
  case (snoc a acts)
  show ?case by (simp add: authRun_def authStep_inv)
qed

text \<open>
  Claim C9. \<open>isAuthenticated = (user is non-null)\<close> holds in the initial state, after
  \<open>setUser\<close> and after \<open>logout\<close> from any state, hence after every run of the two
  actions from the initial state.
\<close>

theorem auth_store_invariant:
  "authInv initialAuth
   \<and> authInv (setUser u st)
   \<and> authInv (fst (logout (st, w)))
   \<and> authInv (fst (authRun acts w))"
  by (simp add: authRun_inv) (simp add: authInv_def initialAuth_def setUser_def logout_def)

section \<open>The plan store\<close>

text \<open>
  Claim C4. Each action is the state with its target field replaced: \<open>setCurrentPlan\<close>
  replaces \<open>currentPlan\<close>, \<open>setPlans\<close> \<open>plans\<close>, \<open>setSyllabi\<close> \<open>syllabi\<close>,
  \<open>addPlan\<close> prepends to \<open>plans\<close>, and \<open>updateTask\<close> maps \<open>currentPlan\<close> (a null
  plan stays null); \<open>plans\<close> and \<open>syllabi\<close> survive \<open>updateTask\<close>, \<open>currentPlan\<close>
  and \<open>syllabi\<close> survive \<open>addPlan\<close>.
\<close>

theorem plan_store_actions_frame:
  "setCurrentPlan p st = st\<lparr>currentPlan := p\<rparr>
   \<and> setPlans ps st = st\<lparr>plans := ps\<rparr>
   \<and> setSyllabi ss st = st\<lparr>syllabi := ss\<rparr>
   \<and> addPlan q st = st\<lparr>plans := q # plans st\<rparr>
   \<and> updateTask taskId updates st' =
       st'\<lparr>currentPlan := map_option (updatePlan taskId updates) (currentPlan st')\<rparr>
   \<and> plans (updateTask taskId updates st') = plans st'
   \<and> syllabi (updateTask taskId updates st') = syllabi st'
   \<and> currentPlan (addPlan q st) = currentPlan st
   \<and> syllabi (addPlan q st) = syllabi st"
  by (simp add: setCurrentPlan_def setPlans_def setSyllabi_def addPlan_def updateTask_def
      zset_def noPatch_def wholeState_def split: option.split)

text \<open>The spread \<open>{...a, ...b}\<close> as a map: \<open>b\<close> overrides, its later entries first.\<close>

lemma map_of_upsert: "map_of (upsert k v kvs) = (map_of kvs)(k \<mapsto> v)"
  by (induction kvs) auto

lemma map_of_spread: "map_of (spread a b) = map_of a ++ map_of (rev b)"
proof (induction b arbitrary: a)
  case Nil
  show ?case by (simp add: spread_def)
next
  case (Cons x b)
  obtain k v where x: "x = (k, v)" by (cases x)
  have "spread a (x # b) = spread (upsert k v a) b"
    by (simp add: spread_def x)
  also have "map_of \<dots> = (map_of a)(k \<mapsto> v) ++ map_of (rev b)"
    by (simp only: Cons.IH map_of_upsert)
  also have "\<dots> = map_of a ++ map_of (rev (x # b))"
    by (auto simp add: x fun_eq_iff map_add_def split: option.splits)
  finally show ?case .
qed

section \<open>Saving a task from the dashboard\<close>

text \<open>
  Claim C3. With a current plan, when \<open>plansAPI.updateTask\<close> rejects: at the first
  \<open>await\<close> (the request in flight) the store already holds \<open>updateTask\<close>'s result;
  the handler ends in that same page with only \<open>updatingTask\<close> cleared, so the store
  is not rolled back: its current plan is the updated plan, whose tasks are the old ones
  passed through \<open>updateOne\<close>, and a task with the saved id is its old object overridden
  by the updates.
\<close>

theorem optimistic_update_not_rolled_back:
  assumes "currentPlan (planStore pg) = Some cp"
    and "fst (plansAPI_updateTask srv w (plan_id cp) taskId updates) = Rejected e"
  shows
    "planStore (handleTaskSave_begin taskId updates pg) = updateTask taskId updates (planStore pg)
     \<and> fst (handleTaskSave srv taskId updates (pg, w)) =
         handleTaskSave_finally (handleTaskSave_begin taskId updates pg)
     \<and> planStore (fst (handleTaskSave srv taskId updates (pg, w))) =
         updateTask taskId updates (planStore pg)
     \<and> currentPlan (planStore (fst (handleTaskSave srv taskId updates (pg, w)))) =
         Some (updatePlan taskId updates cp)
     \<and> weeks (plan_data (updatePlan taskId updates cp)) =
         map (\<lambda>wk. wk\<lparr>tasks := map (updateOne taskId updates) (tasks wk)\<rparr>) (weeks (plan_data cp))
     \<and> (map_of t ''id'' = Some (JStr taskId) \<longrightarrow>
          map_of (updateOne taskId updates t) = map_of t ++ map_of (rev updates))"
proof -
  obtain w1 where r: "plansAPI_updateTask srv w (plan_id cp) taskId updates = (Rejected e, w1)"
    using assms(2) by (cases "plansAPI_updateTask srv w (plan_id cp) taskId updates") simp
  have h: "handleTaskSave srv taskId updates (pg, w) =
      (handleTaskSave_finally (handleTaskSave_begin taskId updates pg), handleTaskSave_catch w1)"
    using assms(1) r by (simp add: handleTaskSave_def)
  have u: "currentPlan (updateTask taskId updates (planStore pg)) =
      Some (updatePlan taskId updates cp)"
    using assms(1) by (simp add: updateTask_def zset_def noPatch_def)
  show ?thesis
    using u
    by (simp add: h handleTaskSave_finally_def handleTaskSave_begin_def updatePlan_def
        updateOne_def map_of_spread)
qed

text \<open>Saving \<open>status: completed\<close> for task \<open>t1\<close> while the network is down.\<close>

theorem optimistic_update_not_rolled_back_witness:
  "fst (plansAPI_updateTask offline demoWorld 7 ''t1'' [(''status'', JStr ''completed'')]) =
     Rejected (AxiosError
       (requestInterceptor demoWorld
          (instanceConfig ''put'' ''/plans/7/tasks/t1''
             (JObj [(''status'', JStr ''completed'')]) Map.empty)) None)
   \<and> currentPlan (planStore (fst (handleTaskSave offline ''t1''
         [(''status'', JStr ''completed'')] (demoDashboard, demoWorld)))) =
       Some (updatePlan ''t1'' [(''status'', JStr ''completed'')] demoPlan)
   \<and> map (\<lambda>wk. map (\<lambda>t. map_of t ''status'') (tasks wk))
         (weeks (plan_data (updatePlan ''t1'' [(''status'', JStr ''completed'')] demoPlan))) =
       replicate 5 [Some (JStr ''completed''), Some (JStr ''pending'')]"
proof -
  have p: "showInt 7 = ''7''"
    by (simp add: showInt_def showNat.simps digit_def)
  have r: "fst (plansAPI_updateTask offline demoWorld 7 ''t1'' [(''status'', JStr ''completed'')]) =
     Rejected (AxiosError
       (requestInterceptor demoWorld
          (instanceConfig ''put'' ''/plans/7/tasks/t1''
             (JObj [(''status'', JStr ''completed'')]) Map.empty)) None)"
    by (simp add: plansAPI_updateTask_def p api_no_reply offline_def dataOf_def)
  have cp: "currentPlan (planStore demoDashboard) = Some demoPlan" and i: "plan_id demoPlan = 7"
    by (simp_all add: demoDashboard_def demoPlan_def)
  from r i have r': "fst (plansAPI_updateTask offline demoWorld (plan_id demoPlan) ''t1''
        [(''status'', JStr ''completed'')]) =
     Rejected (AxiosError
       (requestInterceptor demoWorld
          (instanceConfig ''put'' ''/plans/7/tasks/t1''
             (JObj [(''status'', JStr ''completed'')]) Map.empty)) None)"
    by simp
  note t = optimistic_update_not_rolled_back [OF cp r', of "demoTask ''t1''"]
  from t have 2: "currentPlan (planStore (fst (handleTaskSave offline ''t1''
         [(''status'', JStr ''completed'')] (demoDashboard, demoWorld)))) =
       Some (updatePlan ''t1'' [(''status'', JStr ''completed'')] demoPlan)"
    by blast
  from t have "weeks (plan_data (updatePlan ''t1'' [(''status'', JStr ''completed'')] demoPlan)) =
      map (\<lambda>wk. wk\<lparr>tasks := map (updateOne ''t1'' [(''status'', JStr ''completed'')]) (tasks wk)\<rparr>)
        (weeks (plan_data demoPlan))"
    by blast
  then have 3: "map (\<lambda>wk. map (\<lambda>t. map_of t ''status'') (tasks wk))
         (weeks (plan_data (updatePlan ''t1'' [(''status'', JStr ''completed'')] demoPlan))) =
       replicate 5 [Some (JStr ''completed''), Some (JStr ''pending'')]"
    by (simp add: demoPlan_def demoWeek_def demoTask_def updateOne_def spread_def
        numeral_eq_Suc)
  from r 2 3 show ?thesis
    by (intro conjI)
qed

section \<open>The weeks on the dashboard\<close>

lemma slice_first_four: "slice 0 4 xs = take 4 xs"
  by (simp add: slice_def Let_def min_def)

text \<open>
  Claim C10. While the page is loading it shows the loading screen and no week at all.
  Once loaded, the plan section is the card of the current plan; the card shows the views
  of the first four weeks and no more: weeks appended after the fourth do not change what
  is shown. The badge counts all weeks.
\<close>

theorem dashboard_shows_first_four_weeks:
  "(loading pg \<longrightarrow> DashboardPage pg = LoadingScreen)
   \<and> (\<not> loading pg \<and> currentPlan (planStore pg) = Some p \<longrightarrow>
        DashboardPage pg = Dashboard (Some (planCardOf (updatingTask pg) p)))
   \<and> weekViews (planCardOf u p) = map (renderWeek u) (take 4 (weeks (plan_data p)))
   \<and> length (weekViews (planCardOf u p)) = min 4 (length (weeks (plan_data p)))
   \<and> badge (planCardOf u p) = showInt (int (length (weeks (plan_data p)))) @ '' Weeks''
   \<and> (4 \<le> length ws \<longrightarrow>
        weekViews (planCardOf u (p\<lparr>plan_data := (plan_data p)\<lparr>weeks := ws @ extra\<rparr>\<rparr>)) =
        weekViews (planCardOf u (p\<lparr>plan_data := (plan_data p)\<lparr>weeks := ws\<rparr>\<rparr>)))"
  by (simp add: DashboardPage_def planCardOf_def slice_first_four)

text \<open>A plan of five weeks: weeks 1 to 4 are shown, the badge says 5; the same page while
  loading shows the loading screen.\<close>

theorem dashboard_shows_first_four_weeks_witness:
  "DashboardPage demoDashboard = Dashboard (Some (planCardOf None demoPlan))
   \<and> DashboardPage (demoDashboard\<lparr>loading := True\<rparr>) = LoadingScreen
   \<and> map week_key (weekViews (planCardOf None demoPlan)) = [1, 2, 3, 4]
   \<and> badge (planCardOf None demoPlan) = ''5 Weeks''
   \<and> weekViews (planCardOf None (demoPlan\<lparr>plan_data := (plan_data demoPlan)
         \<lparr>weeks := [demoWeek 1, demoWeek 2, demoWeek 3, demoWeek 4] @ [demoWeek 5]\<rparr>\<rparr>)) =
       weekViews (planCardOf None (demoPlan\<lparr>plan_data := (plan_data demoPlan)
         \<lparr>weeks := [demoWeek 1, demoWeek 2, demoWeek 3, demoWeek 4]\<rparr>\<rparr>))"
proof -
  note t = dashboard_shows_first_four_weeks [of demoDashboard demoPlan None
      "[demoWeek 1, demoWeek 2, demoWeek 3, demoWeek 4]" "[demoWeek 5]"]
  have 1: "DashboardPage demoDashboard = Dashboard (Some (planCardOf None demoPlan))"
    using t by (simp add: demoDashboard_def)
  have 0: "DashboardPage (demoDashboard\<lparr>loading := True\<rparr>) = LoadingScreen"
    using dashboard_shows_first_four_weeks [of "demoDashboard\<lparr>loading := True\<rparr>"]
    by simp
  have 2: "map week_key (weekViews (planCardOf None demoPlan)) = [1, 2, 3, 4]"
    using t by (simp add: demoPlan_def renderWeek_def demoWeek_def)
  have 3: "badge (planCardOf None demoPlan) = ''5 Weeks''"
    using t by (simp add: demoPlan_def showInt_def showNat.simps digit_def)
  have 4: "weekViews (planCardOf None (demoPlan\<lparr>plan_data := (plan_data demoPlan)
         \<lparr>weeks := [demoWeek 1, demoWeek 2, demoWeek 3, demoWeek 4] @ [demoWeek 5]\<rparr>\<rparr>)) =
       weekViews (planCardOf None (demoPlan\<lparr>plan_data := (plan_data demoPlan)
         \<lparr>weeks := [demoWeek 1, demoWeek 2, demoWeek 3, demoWeek 4]\<rparr>\<rparr>))"
    using t by simp
  from 1 0 2 3 4 show ?thesis
    by (intro conjI)
qed

section \<open>The upload page\<close>

text \<open>
  Claim C7. Without a file, \<open>handleUpload\<close> returns at once: page and world are
  unchanged, so nothing is sent, and the card is the drop zone, which has no upload
  button. With a file, the button's \<open>disabled\<close> attribute is the \<open>uploading\<close> flag,
  which is set at both \<open>await\<close>s of the handler (upload in flight, list refresh in
  flight), so the button is disabled there.
\<close>

theorem upload_needs_a_file:
  "(the_file pg = None \<longrightarrow>
      handleUpload srv (pg, w) = (pg, w)
      \<and> sent (snd (handleUpload srv (pg, w))) = sent w
      \<and> renderUploadCard pg = DropZone)
   \<and> (the_file pg = Some f \<longrightarrow>
        renderUploadCard pg = FileChosen (file_name f) (uploading pg) (uploading pg) (parsing pg)
        \<and> uploading (handleUpload_begin pg)
        \<and> uploading (handleUpload_uploaded r (handleUpload_begin pg))
        \<and> button_disabled (renderUploadCard (handleUpload_begin pg))
        \<and> button_disabled (renderUploadCard (handleUpload_uploaded r (handleUpload_begin pg))))"
  by (simp add: handleUpload_def renderUploadCard_def handleUpload_begin_def
      handleUpload_uploaded_def)

text \<open>The example page without and with its file, idle and with the upload in flight.\<close>

theorem upload_needs_a_file_witness:
  "handleUpload denyAll (demoUpload\<lparr>the_file := None\<rparr>, demoWorld) =
     (demoUpload\<lparr>the_file := None\<rparr>, demoWorld)
   \<and> renderUploadCard (demoUpload\<lparr>the_file := None\<rparr>) = DropZone
   \<and> renderUploadCard demoUpload = FileChosen ''cs101.pdf'' False False False
   \<and> renderUploadCard (handleUpload_begin demoUpload) = FileChosen ''cs101.pdf'' True True True"
  using upload_needs_a_file [of "demoUpload\<lparr>the_file := None\<rparr>" denyAll demoWorld]
    upload_needs_a_file [of demoUpload _ _ demoFile]
  by (simp add: demoUpload_def demoFile_def renderUploadCard_def handleUpload_begin_def)

lemma handleUpload_upload_failed:
  assumes "the_file pg = Some f" and "fst (syllabusAPI_upload srv w f) = Rejected err"
  shows "handleUpload srv (pg, w) =
           (pg\<lparr>uploading := False, parsing := False,
               error := orElse (errorDetail err) (JStr ''Upload failed'')\<rparr>,
            snd (syllabusAPI_upload srv w f))"
  using assms
  by (cases "syllabusAPI_upload srv w f")
    (simp add: handleUpload_def handleUpload_begin_def handleUpload_catch_def
      handleUpload_finally_def)

lemma handleUpload_getAll_failed:
  assumes "the_file pg = Some f" and "syllabusAPI_upload srv w f = (Resolved response, w1)"
    and "\<not> nullish response" and "fst (syllabusAPI_getAll srv w1) = Rejected err"
  shows "handleUpload srv (pg, w) =
           ((handleUpload_uploaded response (handleUpload_begin pg))
              \<lparr>uploading := False, parsing := False,
               error := orElse (errorDetail err) (JStr ''Upload failed'')\<rparr>,
            snd (syllabusAPI_getAll srv w1))"
  using assms
  by (cases "syllabusAPI_getAll srv w1")
    (simp add: handleUpload_def handleUpload_catch_def handleUpload_finally_def
      handleUpload_uploaded_def handleUpload_begin_def)

lemma handleGeneratePlan_failed:
  assumes "truthy (syllabusId pg)"
    and "fst (plansAPI_generate srv w (syllabusId pg)
           [(''study_hours_per_day'', JNum (studyHours pg)),
            (''study_days'', JArr (map JStr (selectedDays pg)))]) = Rejected err"
  shows "handleGeneratePlan srv (pg, w) =
           (pg\<lparr>generating := False,
               error := orElse (errorDetail err) (JStr ''Plan generation failed'')\<rparr>,
            snd (plansAPI_generate srv w (syllabusId pg)
              [(''study_hours_per_day'', JNum (studyHours pg)),
               (''study_days'', JArr (map JStr (selectedDays pg)))]))"
  using assms
  by (cases "plansAPI_generate srv w (syllabusId pg)
           [(''study_hours_per_day'', JNum (studyHours pg)),
            (''study_days'', JArr (map JStr (selectedDays pg)))]")
    (simp add: handleGeneratePlan_def handleGeneratePlan_begin_def handleGeneratePlan_catch_def
      handleGeneratePlan_finally_def)

lemma denyAll_demoWorld:
  assumes "\<not> retry c"
  shows "api denyAll demoWorld c =
           (Rejected (AxiosError (refreshConfig demoWorld ''r1'')
              (Some (401, JObj [(''detail'', JStr ''Not authenticated'')]))),
            catchRefreshError (demoWorld\<lparr>sent :=
              [wire demoWorld (requestInterceptor demoWorld c), refreshRequest demoWorld ''r1'']\<rparr>))"
proof -
  have "api denyAll demoWorld c =
      (Rejected (AxiosError (refreshConfig demoWorld ''r1'')
         (Some (401, JObj [(''detail'', JStr ''Not authenticated'')]))),
       catchRefreshError (demoWorld\<lparr>sent := sent demoWorld @
         [wire demoWorld (requestInterceptor demoWorld c), refreshRequest demoWorld ''r1'']\<rparr>))"
    using assms
    by (intro api_401_refresh_failed [where d = "JObj [(''detail'', JStr ''Not authenticated'')]"])
      (simp_all add: denyAll_def refreshResult_def demoWorld_def getItem_def)
  then show ?thesis
    by (simp add: demoWorld_def)
qed

lemma errorDetail_denied:
  "orElse (errorDetail (AxiosError c (Some (401, JObj [(''detail'', JStr ''Not authenticated'')]))))
     fallback = JStr ''Not authenticated''"
  by (simp add: orElse_def errorDetail_def optField_def nullish_def field_def)

text \<open>
  Claim C6, as stated, at a concrete input: the upload is answered 401 and so is the
  token refresh. The failed upload step then does more than set the error string and the
  flags: both tokens leave local storage and the browser is sent to \<open>/login\<close>.
\<close>

theorem upload_401_ends_session:
  "fst (syllabusAPI_upload denyAll demoWorld demoFile) =
     Rejected (AxiosError (refreshConfig demoWorld ''r1'')
       (Some (401, JObj [(''detail'', JStr ''Not authenticated'')])))
   \<and> error (fst (handleUpload denyAll (demoUpload, demoWorld))) = JStr ''Not authenticated''
   \<and> getItem demoWorld ''access_token'' = Some ''old''
   \<and> getItem (snd (handleUpload denyAll (demoUpload, demoWorld))) ''access_token'' = None
   \<and> getItem demoWorld ''refresh_token'' = Some ''r1''
   \<and> getItem (snd (handleUpload denyAll (demoUpload, demoWorld))) ''refresh_token'' = None
   \<and> location_href demoWorld = ''/upload''
   \<and> location_href (snd (handleUpload denyAll (demoUpload, demoWorld))) = ''/login''"
proof -
  have u: "syllabusAPI_upload denyAll demoWorld demoFile =
      (Rejected (AxiosError (refreshConfig demoWorld ''r1'')
         (Some (401, JObj [(''detail'', JStr ''Not authenticated'')]))),
       catchRefreshError (demoWorld\<lparr>sent :=
         [wire demoWorld (requestInterceptor demoWorld
            (instanceConfig ''post'' ''/syllabus/upload'' (JObj [(''file'', JStr (file_name demoFile))])
               [''Content-Type'' \<mapsto> ''multipart/form-data''])),
          refreshRequest demoWorld ''r1'']\<rparr>))"
    by (simp add: syllabusAPI_upload_def denyAll_demoWorld instanceConfig_def dataOf_def)
  have f: "the_file demoUpload = Some demoFile"
    by (simp add: demoUpload_def)
  have h: "handleUpload denyAll (demoUpload, demoWorld) =
      (demoUpload\<lparr>uploading := False, parsing := False, error := JStr ''Not authenticated''\<rparr>,
       snd (syllabusAPI_upload denyAll demoWorld demoFile))"
    using handleUpload_upload_failed [OF f, of denyAll demoWorld] u
    by (simp add: errorDetail_denied)
  have c1: "fst (syllabusAPI_upload denyAll demoWorld demoFile) =
     Rejected (AxiosError (refreshConfig demoWorld ''r1'')
       (Some (401, JObj [(''detail'', JStr ''Not authenticated'')])))"
    by (simp add: u)
  have c2: "error (fst (handleUpload denyAll (demoUpload, demoWorld))) = JStr ''Not authenticated''"
    by (simp add: h)
  have c3: "getItem demoWorld ''access_token'' = Some ''old''"
    and c5: "getItem demoWorld ''refresh_token'' = Some ''r1''"
    and c7: "location_href demoWorld = ''/upload''"
    by (simp_all add: demoWorld_def getItem_def)
  have c4: "getItem (snd (handleUpload denyAll (demoUpload, demoWorld))) ''access_token'' = None"
    and c6: "getItem (snd (handleUpload denyAll (demoUpload, demoWorld))) ''refresh_token'' = None"
    and c8: "location_href (snd (handleUpload denyAll (demoUpload, demoWorld))) = ''/login''"
    by (simp_all add: h u catchRefreshError_def removeItem_def getItem_def)
  from c1 c2 c3 c4 c5 c6 c7 c8 show ?thesis
    by (intro conjI)
qed

lemma surfaced_orElse:
  assumes "surfaced d fallback = Some msg"
  shows "orElse d (JStr fallback) = JStr msg"
  using assms by (cases d) (auto simp add: surfaced_def orElse_def split: if_splits)

lemma surfaced_nonempty:
  assumes "surfaced d fallback = Some msg" and "fallback \<noteq> []"
  shows "msg \<noteq> []"
  using assms by (cases d) (auto simp add: surfaced_def split: if_splits)

lemma renderError_message:
  assumes "error pg = JStr msg" and "msg \<noteq> []"
  shows "renderError pg = Banner msg"
  using assms by (simp add: renderError_def)

text \<open>
  Claim C6, amended. Take a failing network step of \<open>handleUpload\<close> (the upload, or the
  list refresh after a successful upload) or of \<open>handleGeneratePlan\<close> whose error has a
  string \<open>detail\<close> or none (or a falsy one). The error is caught: the page after the
  handler is the page before the failed step with the in-flight flags false and
  \<open>error\<close> set to the message string, which is the detail if it is a non-empty string
  and the fallback otherwise, and the page shows that string in the error banner. No
  other field of the page or of the plan store changes. In the browser, local storage
  keeps every key other than \<open>access_token\<close> and \<open>refresh_token\<close>, and the router is
  not used.
\<close>

theorem failed_step_changes_error_flags_and_session_only:
  "(the_file pg = Some f \<and> fst (syllabusAPI_upload srv w f) = Rejected err
       \<and> surfaced (errorDetail err) ''Upload failed'' = Some msg \<longrightarrow>
      fst (handleUpload srv (pg, w)) =
        pg\<lparr>uploading := False, parsing := False, error := JStr msg\<rparr>
      \<and> renderError (fst (handleUpload srv (pg, w))) = Banner msg
      \<and> otherStorage (snd (handleUpload srv (pg, w))) = otherStorage w
      \<and> router (snd (handleUpload srv (pg, w))) = router w)
   \<and> (the_file pg = Some f \<and> syllabusAPI_upload srv w f = (Resolved response, w')
       \<and> \<not> nullish response \<and> fst (syllabusAPI_getAll srv w') = Rejected err
       \<and> surfaced (errorDetail err) ''Upload failed'' = Some msg \<longrightarrow>
      fst (handleUpload srv (pg, w)) =
        (handleUpload_uploaded response (handleUpload_begin pg))
          \<lparr>uploading := False, parsing := False, error := JStr msg\<rparr>
      \<and> renderError (fst (handleUpload srv (pg, w))) = Banner msg
      \<and> otherStorage (snd (handleUpload srv (pg, w))) = otherStorage w'
      \<and> router (snd (handleUpload srv (pg, w))) = router w')
   \<and> (truthy (syllabusId pg)
       \<and> fst (plansAPI_generate srv w (syllabusId pg)
              [(''study_hours_per_day'', JNum (studyHours pg)),
               (''study_days'', JArr (map JStr (selectedDays pg)))]) = Rejected err
       \<and> surfaced (errorDetail err) ''Plan generation failed'' = Some msg \<longrightarrow>
      fst (handleGeneratePlan srv (pg, w)) =
        pg\<lparr>generating := False, error := JStr msg\<rparr>
      \<and> renderError (fst (handleGeneratePlan srv (pg, w))) = Banner msg
      \<and> otherStorage (snd (handleGeneratePlan srv (pg, w))) = otherStorage w
      \<and> router (snd (handleGeneratePlan srv (pg, w))) = router w)"
proof (intro conjI impI)
  assume a: "the_file pg = Some f \<and> fst (syllabusAPI_upload srv w f) = Rejected err
       \<and> surfaced (errorDetail err) ''Upload failed'' = Some msg"
  then have m: "orElse (errorDetail err) (JStr ''Upload failed'') = JStr msg" and n: "msg \<noteq> []"
    using surfaced_orElse surfaced_nonempty by (blast, fastforce)
  from a have "handleUpload srv (pg, w) =
      (pg\<lparr>uploading := False, parsing := False,
          error := orElse (errorDetail err) (JStr ''Upload failed'')\<rparr>,
       snd (syllabusAPI_upload srv w f))"
    using handleUpload_upload_failed by blast
  with m have h: "handleUpload srv (pg, w) =
      (pg\<lparr>uploading := False, parsing := False, error := JStr msg\<rparr>,
       snd (syllabusAPI_upload srv w f))"
    by simp
  show "fst (handleUpload srv (pg, w)) =
      pg\<lparr>uploading := False, parsing := False, error := JStr msg\<rparr>"
    by (simp add: h)
  show "renderError (fst (handleUpload srv (pg, w))) = Banner msg"
    using n by (simp add: h renderError_message)
  show "otherStorage (snd (handleUpload srv (pg, w))) = otherStorage w"
    and "router (snd (handleUpload srv (pg, w))) = router w"
    by (simp_all add: h syllabusAPI_upload_def api_frame)
next
  assume a: "the_file pg = Some f \<and> syllabusAPI_upload srv w f = (Resolved response, w')
       \<and> \<not> nullish response \<and> fst (syllabusAPI_getAll srv w') = Rejected err
       \<and> surfaced (errorDetail err) ''Upload failed'' = Some msg"
  then have m: "orElse (errorDetail err) (JStr ''Upload failed'') = JStr msg" and n: "msg \<noteq> []"
    using surfaced_orElse surfaced_nonempty by (blast, fastforce)
  from a have "handleUpload srv (pg, w) =
      ((handleUpload_uploaded response (handleUpload_begin pg))
         \<lparr>uploading := False, parsing := False,
          error := orElse (errorDetail err) (JStr ''Upload failed'')\<rparr>,
       snd (syllabusAPI_getAll srv w'))"
    using handleUpload_getAll_failed by blast
  with m have h: "handleUpload srv (pg, w) =
      ((handleUpload_uploaded response (handleUpload_begin pg))
         \<lparr>uploading := False, parsing := False, error := JStr msg\<rparr>,
       snd (syllabusAPI_getAll srv w'))"
    by simp
  show "fst (handleUpload srv (pg, w)) =
      (handleUpload_uploaded response (handleUpload_begin pg))
        \<lparr>uploading := False, parsing := False, error := JStr msg\<rparr>"
    by (simp add: h)
  show "renderError (fst (handleUpload srv (pg, w))) = Banner msg"
    using n by (simp add: h renderError_message)
  show "otherStorage (snd (handleUpload srv (pg, w))) = otherStorage w'"
    and "router (snd (handleUpload srv (pg, w))) = router w'"
    by (simp_all add: h syllabusAPI_getAll_def api_frame)
next
  assume a: "truthy (syllabusId pg)
       \<and> fst (plansAPI_generate srv w (syllabusId pg)
              [(''study_hours_per_day'', JNum (studyHours pg)),
               (''study_days'', JArr (map JStr (selectedDays pg)))]) = Rejected err
       \<and> surfaced (errorDetail err) ''Plan generation failed'' = Some msg"
  then have m: "orElse (errorDetail err) (JStr ''Plan generation failed'') = JStr msg"
    and n: "msg \<noteq> []"
    using surfaced_orElse surfaced_nonempty by (blast, fastforce)
  from a have "handleGeneratePlan srv (pg, w) =
      (pg\<lparr>generating := False,
          error := orElse (errorDetail err) (JStr ''Plan generation failed'')\<rparr>,
       snd (plansAPI_generate srv w (syllabusId pg)
         [(''study_hours_per_day'', JNum (studyHours pg)),
          (''study_days'', JArr (map JStr (selectedDays pg)))]))"
    using handleGeneratePlan_failed by blast
  with m have h: "handleGeneratePlan srv (pg, w) =
      (pg\<lparr>generating := False, error := JStr msg\<rparr>,
       snd (plansAPI_generate srv w (syllabusId pg)
         [(''study_hours_per_day'', JNum (studyHours pg)),
          (''study_days'', JArr (map JStr (selectedDays pg)))]))"
    by simp
  show "fst (handleGeneratePlan srv (pg, w)) = pg\<lparr>generating := False, error := JStr msg\<rparr>"
    by (simp add: h)
  show "renderError (fst (handleGeneratePlan srv (pg, w))) = Banner msg"
    using n by (simp add: h renderError_message)
  show "otherStorage (snd (handleGeneratePlan srv (pg, w))) = otherStorage w"
    and "router (snd (handleGeneratePlan srv (pg, w))) = router w"
    by (simp_all add: h plansAPI_generate_def api_frame)
qed

text \<open>A 401 on the upload, whose detail is shown; an unreachable list refresh after a
  successful upload and an unreachable plan generation, which show the fallbacks.\<close>

theorem failed_step_changes_error_flags_and_session_only_witness:
  "(fst (handleUpload denyAll (demoUpload, demoWorld)) =
      demoUpload\<lparr>uploading := False, parsing := False, error := JStr ''Not authenticated''\<rparr>
    \<and> renderError (fst (handleUpload denyAll (demoUpload, demoWorld))) =
        Banner ''Not authenticated''
    \<and> otherStorage (snd (handleUpload denyAll (demoUpload, demoWorld))) = otherStorage demoWorld)
   \<and> (fst (handleUpload uploadOnly (demoUpload, demoWorld)) =
       demoUpload\<lparr>syllabusId := JNum 5, parsedData := JObj [], uploading := False,
                  parsing := False, error := JStr ''Upload failed''\<rparr>
      \<and> renderError (fst (handleUpload uploadOnly (demoUpload, demoWorld))) =
          Banner ''Upload failed'')
   \<and> (fst (handleGeneratePlan offline (demoUpload, demoWorld)) =
       demoUpload\<lparr>generating := False, error := JStr ''Plan generation failed''\<rparr>
      \<and> renderError (fst (handleGeneratePlan offline (demoUpload, demoWorld))) =
          Banner ''Plan generation failed'')"
proof (intro conjI)
  have f: "the_file demoUpload = Some demoFile"
    by (simp add: demoUpload_def)
  have u: "fst (syllabusAPI_upload denyAll demoWorld demoFile) =
      Rejected (AxiosError (refreshConfig demoWorld ''r1'')
         (Some (401, JObj [(''detail'', JStr ''Not authenticated'')])))"
    by (simp add: syllabusAPI_upload_def denyAll_demoWorld instanceConfig_def)
  have s: "surfaced (errorDetail (AxiosError (refreshConfig demoWorld ''r1'')
         (Some (401, JObj [(''detail'', JStr ''Not authenticated'')])))) ''Upload failed'' =
      Some ''Not authenticated''"
    by (simp add: surfaced_def errorDetail_def optField_def nullish_def field_def)
  note t1 = failed_step_changes_error_flags_and_session_only
    [where pg = demoUpload and f = demoFile and srv = denyAll and w = demoWorld
      and err = "AxiosError (refreshConfig demoWorld ''r1'')
         (Some (401, JObj [(''detail'', JStr ''Not authenticated'')]))"
      and msg = "''Not authenticated''"]
  from t1 f u s show "fst (handleUpload denyAll (demoUpload, demoWorld)) =
      demoUpload\<lparr>uploading := False, parsing := False, error := JStr ''Not authenticated''\<rparr>"
    and "renderError (fst (handleUpload denyAll (demoUpload, demoWorld))) =
        Banner ''Not authenticated''"
    and "otherStorage (snd (handleUpload denyAll (demoUpload, demoWorld))) =
      otherStorage demoWorld"
    by blast+
next
  let ?c = "instanceConfig ''post'' ''/syllabus/upload'' (JObj [(''file'', JStr (file_name demoFile))])
      [''Content-Type'' \<mapsto> ''multipart/form-data'']"
  let ?w1 = "demoWorld\<lparr>sent := sent demoWorld @ [wire demoWorld (requestInterceptor demoWorld ?c)]\<rparr>"
  let ?resp = "JObj [(''syllabus_id'', JNum 5), (''parsed_data'', JObj [])]"
  let ?err = "AxiosError (requestInterceptor ?w1
        (instanceConfig ''get'' ''/syllabus/'' JUndefined Map.empty)) None"
  have f: "the_file demoUpload = Some demoFile"
    by (simp add: demoUpload_def)
  have "api uploadOnly demoWorld ?c = (Resolved (200, ?resp), ?w1)"
    by (rule api_resolved)
      (simp_all add: uploadOnly_def wire_def instanceConfig_def requestInterceptor_def
        getItem_def demoWorld_def API_BASE_URL_def)
  then have u: "syllabusAPI_upload uploadOnly demoWorld demoFile = (Resolved ?resp, ?w1)"
    by (simp add: syllabusAPI_upload_def dataOf_def)
  have g: "fst (syllabusAPI_getAll uploadOnly ?w1) = Rejected ?err"
    by (simp add: syllabusAPI_getAll_def)
      (subst api_no_reply,
        simp_all add: uploadOnly_def wire_def instanceConfig_def requestInterceptor_def
          getItem_def demoWorld_def API_BASE_URL_def)
  have n: "\<not> nullish ?resp"
    by (simp add: nullish_def)
  have s: "surfaced (errorDetail ?err) ''Upload failed'' = Some ''Upload failed''"
    by (simp add: surfaced_def errorDetail_def)
  note t2 = failed_step_changes_error_flags_and_session_only
    [where pg = demoUpload and f = demoFile and srv = uploadOnly and w = demoWorld
      and response = ?resp and w' = ?w1 and err = ?err and msg = "''Upload failed''"]
  from t2 f u g n s have a: "fst (handleUpload uploadOnly (demoUpload, demoWorld)) =
      (handleUpload_uploaded ?resp (handleUpload_begin demoUpload))
        \<lparr>uploading := False, parsing := False, error := JStr ''Upload failed''\<rparr>"
    and b: "renderError (fst (handleUpload uploadOnly (demoUpload, demoWorld))) =
          Banner ''Upload failed''"
    by blast+
  from a show "fst (handleUpload uploadOnly (demoUpload, demoWorld)) =
       demoUpload\<lparr>syllabusId := JNum 5, parsedData := JObj [], uploading := False,
                  parsing := False, error := JStr ''Upload failed''\<rparr>"
    by (simp add: handleUpload_uploaded_def handleUpload_begin_def field_def demoUpload_def)
  from b show "renderError (fst (handleUpload uploadOnly (demoUpload, demoWorld))) =
          Banner ''Upload failed''" .
next
  let ?prefs = "[(''study_hours_per_day'', JNum (studyHours demoUpload)),
      (''study_days'', JArr (map JStr (selectedDays demoUpload)))]"
  let ?c = "instanceConfig ''post'' ''/plans/generate''
      (JObj (spread [(''syllabus_id'', syllabusId demoUpload)] ?prefs)) Map.empty"
  let ?err = "AxiosError (requestInterceptor demoWorld ?c) None"
  have y: "truthy (syllabusId demoUpload)"
    by (simp add: demoUpload_def)
  have g: "fst (plansAPI_generate offline demoWorld (syllabusId demoUpload) ?prefs) =
      Rejected ?err"
    by (simp add: plansAPI_generate_def) (subst api_no_reply, simp_all add: offline_def)
  have s: "surfaced (errorDetail ?err) ''Plan generation failed'' = Some ''Plan generation failed''"
    by (simp add: surfaced_def errorDetail_def)
  note t3 = failed_step_changes_error_flags_and_session_only
    [where pg = demoUpload and srv = offline and w = demoWorld and err = ?err
      and msg = "''Plan generation failed''"]
  from t3 y g s show "fst (handleGeneratePlan offline (demoUpload, demoWorld)) =
       demoUpload\<lparr>generating := False, error := JStr ''Plan generation failed''\<rparr>"
    and "renderError (fst (handleGeneratePlan offline (demoUpload, demoWorld))) =
          Banner ''Plan generation failed''"
    by blast+
qed

end
